theory Spec2Isabelle
  imports Complex_Main "HOL-Library.Word" "HOL-Library.Product_Lexorder"
begin

section \<open>Cast transport and logging: frame-id wrap helper and stats event subscriber\<close>

text \<open>
  This theory embeds two pieces of the cast sources:
  \<^item> \<open>FrameIdWrapHelper\<close> of \<open>cast/net/cast_transport_defines.h\<close>, which expands the
    8-bit frame id of the wire to 32 bits;
  \<^item> \<open>StatsEventSubscriber\<close> with its nested \<open>SimpleHistogram\<close>
    (\<open>stats_event_subscriber.cc\<close>), which turns frame and packet events into statistics.

  Conventions of the embedding.
  \<^item> \<open>uint8\<close>, \<open>uint16\<close> and \<open>uint32\<close> are words; \<open>-\<close>, \<open>+\<close> and shifts wrap.
  \<^item> \<open>base::TimeTicks\<close> and \<open>base::TimeDelta\<close> hold a signed count of microseconds.
    They are integers here; the null \<open>TimeTicks\<close> is 0. The 64-bit range of these
    counts is not modelled.
  \<^item> A \<open>double\<close> is a rational number: the values that occur are quotients of
    integers, and the only conversion back to an integer is the truncation of
    \<open>int64_of_double\<close>.
  \<^item> \<open>std::map\<close> with \<open>begin()\<close> in use is an association list kept in ascending
    key order; the two maps that are only searched by key are HOL maps.
  \<^item> Event counters are natural numbers; their 32-bit range is not modelled.
  \<^item> A data member \<open>x_\<close> of the source is the record field \<open>x\<close>, with a prefix
    where the plain name is taken.
  \<^item> The clock, the offset estimator and the Unix epoch are inputs: each operation
    that reads one of them takes the value read as an argument.
\<close>

subsection \<open>C++ integer division\<close>

text \<open>\<open>/\<close> and \<open>%\<close> on signed integers truncate towards zero.\<close>

definition int64_div :: "int \<Rightarrow> int \<Rightarrow> int" where
  "int64_div a b = sgn a * sgn b * (\<bar>a\<bar> div \<bar>b\<bar>)"

definition int64_rem :: "int \<Rightarrow> int \<Rightarrow> int" where
  "int64_rem a b = a - b * int64_div a b"

subsection \<open>Time\<close>

type_synonym TimeTicks = int
type_synonym TimeDelta = int

definition is_null :: "TimeTicks \<Rightarrow> bool" where
  "is_null t = (t = 0)"

definition InMillisecondsF :: "TimeDelta \<Rightarrow> rat" where
  "InMillisecondsF d = of_int d / 1000"

definition InSecondsF :: "TimeDelta \<Rightarrow> rat" where
  "InSecondsF d = of_int d / 1000000"

text \<open>The implicit conversion of a \<open>double\<close> argument to an \<open>int64\<close> parameter
  discards the fractional part.\<close>

definition int64_of_double :: "rat \<Rightarrow> int" where
  "int64_of_double r = (if 0 \<le> r then \<lfloor>r\<rfloor> else \<lceil>r\<rceil>)"

subsection \<open>FrameIdWrapHelper\<close>

datatype Range = kLowRange | kMiddleRange | kHighRange

record FrameIdWrapHelper =
  first_flag :: bool
  frame_id_wrap_count :: "32 word"
  wrap_range :: Range

definition kLowRangeThreshold :: "8 word" where
  "kLowRangeThreshold = 63"

definition kHighRangeThreshold :: "8 word" where
  "kHighRangeThreshold = 192"

definition kStartFrameId :: "32 word" where
  "kStartFrameId = 0xffffffff"

definition FrameIdWrapHelper_ctor :: FrameIdWrapHelper where
  "FrameIdWrapHelper_ctor =
     \<lparr>first_flag = True, frame_id_wrap_count = 0, wrap_range = kLowRange\<rparr>"

text \<open>The body of \<open>MapTo32bitsFrameId\<close> after the start-up test: the switch over
  the range and the returned id. The result is the id and the helper's new state.\<close>

definition wrap_switch :: "8 word \<Rightarrow> FrameIdWrapHelper \<Rightarrow> 32 word \<times> FrameIdWrapHelper" where
  "wrap_switch over_the_wire_frame_id h =
     (let wrap_count = frame_id_wrap_count h in
      case wrap_range h of
        kLowRange \<Rightarrow>
          (let h1 = (if over_the_wire_frame_id > kLowRangeThreshold \<and>
                        over_the_wire_frame_id < kHighRangeThreshold
                     then h\<lparr>wrap_range := kMiddleRange\<rparr> else h);
               wrap_count1 = (if over_the_wire_frame_id \<ge> kHighRangeThreshold
                              then wrap_count - 1 else wrap_count)
           in (push_bit 8 wrap_count1 + ucast over_the_wire_frame_id, h1))
      | kMiddleRange \<Rightarrow>
          (let h1 = (if over_the_wire_frame_id \<ge> kHighRangeThreshold
                     then h\<lparr>wrap_range := kHighRange\<rparr> else h)
           in (push_bit 8 wrap_count + ucast over_the_wire_frame_id, h1))
      | kHighRange \<Rightarrow>
          (if over_the_wire_frame_id \<le> kLowRangeThreshold
           then (push_bit 8 (wrap_count + 1) + ucast over_the_wire_frame_id,
                 h\<lparr>wrap_range := kLowRange,
                   frame_id_wrap_count := frame_id_wrap_count h + 1\<rparr>)
           else (push_bit 8 wrap_count + ucast over_the_wire_frame_id, h)))"

definition MapTo32bitsFrameId :: "8 word \<Rightarrow> FrameIdWrapHelper \<Rightarrow> 32 word \<times> FrameIdWrapHelper" where
  "MapTo32bitsFrameId over_the_wire_frame_id h =
     (if first_flag h then
        (let h1 = h\<lparr>first_flag := False\<rparr> in
         if over_the_wire_frame_id = 0xff then (kStartFrameId, h1)
         else wrap_switch over_the_wire_frame_id h1)
      else wrap_switch over_the_wire_frame_id h)"

text \<open>Feeding a sequence of wire ids to one helper: each call's id, with the state
  that the call leaves.\<close>

fun map_frame_ids :: "8 word list \<Rightarrow> FrameIdWrapHelper \<Rightarrow> (32 word \<times> FrameIdWrapHelper) list" where
  "map_frame_ids [] h = []"
| "map_frame_ids (v # vs) h =
     (let r = MapTo32bitsFrameId v h in r # map_frame_ids vs (snd r))"

text \<open>The resolver as the specification words it: the zone moves and the effective
  wrap count are given separately, and the id is assembled from them.\<close>

definition spec_next_range :: "Range \<Rightarrow> nat \<Rightarrow> Range" where
  "spec_next_range z v =
     (case z of
        kLowRange \<Rightarrow> (if 63 < v \<and> v < 192 then kMiddleRange else kLowRange)
      | kMiddleRange \<Rightarrow> (if 192 \<le> v then kHighRange else kMiddleRange)
      | kHighRange \<Rightarrow> (if v \<le> 63 then kLowRange else kHighRange))"

definition spec_stored_wrap :: "Range \<Rightarrow> nat \<Rightarrow> 32 word \<Rightarrow> 32 word" where
  "spec_stored_wrap z v w = (if z = kHighRange \<and> v \<le> 63 then w + 1 else w)"

definition spec_effective_wrap :: "Range \<Rightarrow> nat \<Rightarrow> 32 word \<Rightarrow> 32 word" where
  "spec_effective_wrap z v w =
     (if z = kLowRange \<and> 192 \<le> v then w - 1
      else if z = kHighRange \<and> v \<le> 63 then w + 1
      else w)"

definition spec_resolve :: "8 word \<Rightarrow> FrameIdWrapHelper \<Rightarrow> 32 word \<times> FrameIdWrapHelper" where
  "spec_resolve v h =
     (if first_flag h \<and> v = 0xff then (0xffffffff, h\<lparr>first_flag := False\<rparr>)
      else (push_bit 8 (spec_effective_wrap (wrap_range h) (unat v) (frame_id_wrap_count h))
              + ucast v,
            \<lparr>first_flag = False,
             frame_id_wrap_count =
               spec_stored_wrap (wrap_range h) (unat v) (frame_id_wrap_count h),
             wrap_range = spec_next_range (wrap_range h) (unat v)\<rparr>))"

subsection \<open>SimpleHistogram\<close>

record SimpleHistogram =
  h_min :: int
  h_max :: int
  h_width :: int
  buckets :: "nat list"

text \<open>The constructor. \<open>None\<close> stands for the runs that do not return: the division
  by a zero width, the vector of a negative size, and the two \<open>CHECK\<close>s.\<close>

definition SimpleHistogram_ctor :: "int \<Rightarrow> int \<Rightarrow> int \<Rightarrow> SimpleHistogram option" where
  "SimpleHistogram_ctor mn mx width =
     (if width = 0 then None
      else let n = int64_div (mx - mn) width + 2 in
        if n < 0 then None
        else if \<not> nat n > 2 then None
        else if int64_rem (mx - mn) width \<noteq> 0 then None
        else Some \<lparr>h_min = mn, h_max = mx, h_width = width,
                   buckets = replicate (nat n) 0\<rparr>)"

text \<open>The bucket that \<open>Add\<close> increments: \<open>front()\<close>, \<open>back()\<close> or
  \<open>buckets_[index]\<close>.\<close>

definition Add_index :: "int \<Rightarrow> SimpleHistogram \<Rightarrow> nat" where
  "Add_index sample h =
     (if sample < h_min h then 0
      else if sample \<ge> h_max h then length (buckets h) - 1
      else nat (1 + int64_div (sample - h_min h) (h_width h)))"

text \<open>An index outside the vector leaves the vector of the model as it is (in the source
  the \<open>DCHECK_LT\<close> fails there); \<open>Add_index_in_range\<close> below shows that a constructed
  histogram never gets there.\<close>

definition Add :: "int \<Rightarrow> SimpleHistogram \<Rightarrow> SimpleHistogram" where
  "Add sample h =
     (let index = Add_index sample h
      in h\<lparr>buckets := (buckets h)[index := Suc (buckets h ! index)]\<rparr>)"

definition Reset_histogram :: "SimpleHistogram \<Rightarrow> SimpleHistogram" where
  "Reset_histogram h = h\<lparr>buckets := replicate (length (buckets h)) 0\<rparr>"

text \<open>\<open>GetHistogram\<close> lists the buckets in index order. The label of a bucket is kept as
  the numbers that the source prints into it.\<close>

datatype BucketLabel = Below int | Between int int | AtLeast int

definition GetHistogram :: "SimpleHistogram \<Rightarrow> (BucketLabel \<times> nat) list" where
  "GetHistogram h =
     (Below (h_min h), hd (buckets h)) #
     map (\<lambda>i. (let lower = h_min h + (int i - 1) * h_width h;
                    upper = lower + h_width h - 1
                in (Between lower upper, buckets h ! i)))
         [1 ..< length (buckets h) - 1] @
     [(AtLeast (h_max h), last (buckets h))]"

text \<open>A run of \<open>Add\<close> calls.\<close>

definition Add_all :: "int list \<Rightarrow> SimpleHistogram \<Rightarrow> SimpleHistogram" where
  "Add_all samples h = foldl (\<lambda>g x. Add x g) h samples"

subsection \<open>Events\<close>

text \<open>The event kinds and statistics that the subscriber names. \<open>OTHER_EVENT\<close> stands
  for the kinds of \<open>CastLoggingEvent\<close> that it never names.\<close>

datatype CastLoggingEvent =
    FRAME_CAPTURE_BEGIN | FRAME_CAPTURE_END | FRAME_ENCODED | FRAME_ACK_SENT
  | FRAME_DECODED | FRAME_PLAYOUT
  | PACKET_SENT_TO_NETWORK | PACKET_RECEIVED | PACKET_RETRANSMITTED | PACKET_RTX_REJECTED
  | OTHER_EVENT nat

datatype EventMediaType = AUDIO_EVENT | VIDEO_EVENT | UNKNOWN_EVENT

datatype CastStat =
    CAPTURE_FPS | ENCODE_FPS | DECODE_FPS | AVG_ENCODE_TIME_MS | AVG_PLAYOUT_DELAY_MS
  | AVG_NETWORK_LATENCY_MS | AVG_E2E_LATENCY_MS | ENCODE_KBPS | TRANSMISSION_KBPS
  | RETRANSMISSION_KBPS | PACKET_LOSS_FRACTION | MS_SINCE_LAST_RECEIVER_RESPONSE
  | NUM_FRAMES_CAPTURED | NUM_FRAMES_DROPPED_BY_ENCODER | NUM_FRAMES_LATE
  | NUM_PACKETS_SENT | NUM_PACKETS_RETRANSMITTED | NUM_PACKETS_RTX_REJECTED
  | FIRST_EVENT_TIME_MS | LAST_EVENT_TIME_MS
  | CAPTURE_LATENCY_MS_HISTO | ENCODE_LATENCY_MS_HISTO | PACKET_LATENCY_MS_HISTO
  | FRAME_LATENCY_MS_HISTO | PLAYOUT_DELAY_MS_HISTO

record FrameEvent =
  f_timestamp :: TimeTicks
  f_type :: CastLoggingEvent
  f_media_type :: EventMediaType
  f_rtp_timestamp :: "32 word"
  f_size :: nat
  f_delay_delta :: TimeDelta

record PacketEvent =
  p_timestamp :: TimeTicks
  p_type :: CastLoggingEvent
  p_media_type :: EventMediaType
  p_rtp_timestamp :: "32 word"
  p_packet_id :: "16 word"
  p_size :: nat

subsection \<open>The subscriber's state\<close>

record FrameInfo =
  capture_time :: TimeTicks
  capture_end_time :: TimeTicks
  encode_time :: TimeTicks
  encoded :: bool

definition FrameInfo_ctor :: FrameInfo where
  "FrameInfo_ctor =
     \<lparr>capture_time = 0, capture_end_time = 0, encode_time = 0, encoded = False\<rparr>"

text \<open>\<open>FrameLogStats\<close> has the two members of \<open>PacketLogStats\<close> and the sum of the
  delays.\<close>

record PacketLogStats =
  event_counter :: nat
  sum_size :: nat

record FrameLogStats = PacketLogStats +
  sum_delay :: TimeDelta

record StatsEventSubscriber =
  event_media_type :: EventMediaType
  frame_stats :: "CastLoggingEvent \<rightharpoonup> FrameLogStats"
  packet_stats :: "CastLoggingEvent \<rightharpoonup> PacketLogStats"
  total_network_latency :: TimeDelta
  network_latency_datapoints :: nat
  total_e2e_latency :: TimeDelta
  e2e_latency_datapoints :: nat
  num_frames_dropped_by_encoder :: nat
  num_frames_late :: nat
  recent_frame_infos :: "(32 word \<times> FrameInfo) list"
  packet_sent_times :: "((32 word \<times> 16 word) \<times> (TimeTicks \<times> CastLoggingEvent)) list"
  start_time :: TimeTicks
  last_response_received_time :: TimeTicks
  first_event_time :: TimeTicks
  last_event_time :: TimeTicks
  histograms :: "CastStat \<rightharpoonup> SimpleHistogram"

subsection \<open>Ordered maps\<close>

text \<open>\<open>std::map::insert\<close> keeps the entry of a key that is present.\<close>

fun map_insert :: "'k::linorder \<Rightarrow> 'v \<Rightarrow> ('k \<times> 'v) list \<Rightarrow> ('k \<times> 'v) list" where
  "map_insert k v [] = [(k, v)]"
| "map_insert k v ((a, b) # ps) =
     (if k < a then (k, v) # (a, b) # ps
      else if k = a then (a, b) # ps
      else (a, b) # map_insert k v ps)"

fun map_erase :: "'k \<Rightarrow> ('k \<times> 'v) list \<Rightarrow> ('k \<times> 'v) list" where
  "map_erase k [] = []"
| "map_erase k ((a, b) # ps) = (if k = a then ps else (a, b) # map_erase k ps)"

text \<open>Assignment through the iterator that \<open>find\<close> returned.\<close>

fun map_modify :: "'k \<Rightarrow> ('v \<Rightarrow> 'v) \<Rightarrow> ('k \<times> 'v) list \<Rightarrow> ('k \<times> 'v) list" where
  "map_modify k f [] = []"
| "map_modify k f ((a, b) # ps) =
     (if k = a then (a, f b) # ps else (a, b) # map_modify k f ps)"

text \<open>\<open>stats_map->insert\<close>.\<close>

definition stats_insert :: "CastStat \<Rightarrow> rat \<Rightarrow> (CastStat \<rightharpoonup> rat) \<Rightarrow> (CastStat \<rightharpoonup> rat)" where
  "stats_insert k v m = (case m k of None \<Rightarrow> m(k \<mapsto> v) | Some _ \<Rightarrow> m)"

subsection \<open>Construction\<close>

definition kMaxPacketEventTimeMapSize :: nat where
  "kMaxPacketEventTimeMapSize = 1000"

definition kMaxLatencyBucketMs :: int where
  "kMaxLatencyBucketMs = 800"

definition kBucketWidthMs :: int where
  "kBucketWidthMs = 20"

definition InitHistograms :: "CastStat \<rightharpoonup> SimpleHistogram" where
  "InitHistograms =
     (Map.empty
       (CAPTURE_LATENCY_MS_HISTO := SimpleHistogram_ctor 0 kMaxLatencyBucketMs kBucketWidthMs,
        ENCODE_LATENCY_MS_HISTO := SimpleHistogram_ctor 0 kMaxLatencyBucketMs kBucketWidthMs,
        PACKET_LATENCY_MS_HISTO := SimpleHistogram_ctor 0 kMaxLatencyBucketMs kBucketWidthMs,
        FRAME_LATENCY_MS_HISTO := SimpleHistogram_ctor 0 kMaxLatencyBucketMs kBucketWidthMs,
        PLAYOUT_DELAY_MS_HISTO := SimpleHistogram_ctor 0 kMaxLatencyBucketMs kBucketWidthMs))"

text \<open>The constructor; \<open>now\<close> is the reading of the clock.\<close>

definition StatsEventSubscriber_ctor :: "EventMediaType \<Rightarrow> TimeTicks \<Rightarrow> StatsEventSubscriber" where
  "StatsEventSubscriber_ctor media now =
     \<lparr>event_media_type = media,
      frame_stats = Map.empty,
      packet_stats = Map.empty,
      total_network_latency = 0,
      network_latency_datapoints = 0,
      total_e2e_latency = 0,
      e2e_latency_datapoints = 0,
      num_frames_dropped_by_encoder = 0,
      num_frames_late = 0,
      recent_frame_infos = [],
      packet_sent_times = [],
      start_time = now,
      last_response_received_time = 0,
      first_event_time = 0,
      last_event_time = 0,
      histograms = InitHistograms\<rparr>"

subsection \<open>Helpers of the event handlers\<close>

definition IsReceiverEvent :: "CastLoggingEvent \<Rightarrow> bool" where
  "IsReceiverEvent event =
     (event = FRAME_DECODED \<or> event = FRAME_PLAYOUT \<or> event = FRAME_ACK_SENT
      \<or> event = PACKET_RECEIVED)"

text \<open>\<open>bounds\<close> is the answer of the offset estimator: \<open>None\<close> when it returns false,
  the lower and the upper bound otherwise.\<close>

definition GetReceiverOffset :: "(TimeDelta \<times> TimeDelta) option \<Rightarrow> TimeDelta option" where
  "GetReceiverOffset bounds =
     (case bounds of
        None \<Rightarrow> None
      | Some (receiver_offset_lower_bound, receiver_offset_upper_bound) \<Rightarrow>
          Some (int64_div (receiver_offset_lower_bound + receiver_offset_upper_bound) 2))"

text \<open>\<open>histograms_[stat]->Add(sample)\<close>.\<close>

definition histograms_Add ::
  "CastStat \<Rightarrow> rat \<Rightarrow> (CastStat \<rightharpoonup> SimpleHistogram) \<Rightarrow> (CastStat \<rightharpoonup> SimpleHistogram)" where
  "histograms_Add stat sample hs =
     (case hs stat of None \<Rightarrow> hs | Some h \<Rightarrow> hs(stat \<mapsto> Add (int64_of_double sample) h))"

definition set_first_last :: "TimeTicks \<Rightarrow> StatsEventSubscriber \<Rightarrow> StatsEventSubscriber" where
  "set_first_last timestamp s =
     s\<lparr>first_event_time :=
          (if is_null (first_event_time s) then timestamp
           else min (first_event_time s) timestamp),
       last_event_time :=
          (if is_null (last_event_time s) then timestamp
           else max (last_event_time s) timestamp)\<rparr>"

definition UpdateFirstLastEventTime ::
  "(TimeDelta \<times> TimeDelta) option \<Rightarrow> TimeTicks \<Rightarrow> bool \<Rightarrow> StatsEventSubscriber
     \<Rightarrow> StatsEventSubscriber" where
  "UpdateFirstLastEventTime bounds timestamp is_receiver_event s =
     (if is_receiver_event then
        (case GetReceiverOffset bounds of
           None \<Rightarrow> s
         | Some receiver_offset \<Rightarrow> set_first_last (timestamp - receiver_offset) s)
      else set_first_last timestamp s)"

definition UpdateLastResponseTime ::
  "(TimeDelta \<times> TimeDelta) option \<Rightarrow> TimeTicks \<Rightarrow> StatsEventSubscriber \<Rightarrow> StatsEventSubscriber" where
  "UpdateLastResponseTime bounds receiver_time s =
     (case GetReceiverOffset bounds of
        None \<Rightarrow> s
      | Some receiver_offset \<Rightarrow>
          s\<lparr>last_response_received_time := receiver_time - receiver_offset\<rparr>)"

subsection \<open>The frame cache\<close>

text \<open>\<open>kMaxFrameInfoMapSize\<close> is declared in the header; it is the first argument here.
  \<open>begin()\<close> is read only of a map that holds an entry.\<close>

definition MaybeInsertFrameInfo ::
  "nat \<Rightarrow> 32 word \<Rightarrow> FrameInfo \<Rightarrow> StatsEventSubscriber \<Rightarrow> StatsEventSubscriber" where
  "MaybeInsertFrameInfo kMaxFrameInfoMapSize rtp_timestamp frame_info s =
     (if length (recent_frame_infos s) = kMaxFrameInfoMapSize \<and>
         (case recent_frame_infos s of [] \<Rightarrow> False | (k, _) # _ \<Rightarrow> rtp_timestamp < k)
      then s
      else
        let s1 = s\<lparr>recent_frame_infos :=
                      map_insert rtp_timestamp frame_info (recent_frame_infos s)\<rparr>
        in if length (recent_frame_infos s1) \<ge> kMaxFrameInfoMapSize then
             (case recent_frame_infos s1 of
                [] \<Rightarrow> s1
              | (k, erased) # rest \<Rightarrow>
                  (if is_null (encode_time erased)
                   then s1\<lparr>num_frames_dropped_by_encoder :=
                              num_frames_dropped_by_encoder s1 + 1\<rparr>
                   else s1)\<lparr>recent_frame_infos := rest\<rparr>)
           else s1)"

definition RecordFrameCaptureTime ::
  "nat \<Rightarrow> FrameEvent \<Rightarrow> StatsEventSubscriber \<Rightarrow> StatsEventSubscriber" where
  "RecordFrameCaptureTime kMaxFrameInfoMapSize frame_event s =
     MaybeInsertFrameInfo kMaxFrameInfoMapSize (f_rtp_timestamp frame_event)
       (FrameInfo_ctor\<lparr>capture_time := f_timestamp frame_event\<rparr>) s"

definition RecordCaptureLatency :: "FrameEvent \<Rightarrow> StatsEventSubscriber \<Rightarrow> StatsEventSubscriber" where
  "RecordCaptureLatency frame_event s =
     (case map_of (recent_frame_infos s) (f_rtp_timestamp frame_event) of
        None \<Rightarrow> s
      | Some info \<Rightarrow>
          (let s1 = (if \<not> is_null (capture_time info)
                     then s\<lparr>histograms :=
                              histograms_Add CAPTURE_LATENCY_MS_HISTO
                                (InMillisecondsF (capture_time info - f_timestamp frame_event))
                                (histograms s)\<rparr>
                     else s)
           in s1\<lparr>recent_frame_infos :=
                    map_modify (f_rtp_timestamp frame_event)
                      (\<lambda>i. i\<lparr>capture_end_time := f_timestamp frame_event\<rparr>)
                      (recent_frame_infos s1)\<rparr>))"

definition RecordEncodeLatency ::
  "nat \<Rightarrow> FrameEvent \<Rightarrow> StatsEventSubscriber \<Rightarrow> StatsEventSubscriber" where
  "RecordEncodeLatency kMaxFrameInfoMapSize frame_event s =
     (case map_of (recent_frame_infos s) (f_rtp_timestamp frame_event) of
        None \<Rightarrow>
          MaybeInsertFrameInfo kMaxFrameInfoMapSize (f_rtp_timestamp frame_event)
            (FrameInfo_ctor\<lparr>encode_time := f_timestamp frame_event\<rparr>) s
      | Some info \<Rightarrow>
          (let s1 = (if \<not> is_null (capture_end_time info)
                     then s\<lparr>histograms :=
                              histograms_Add ENCODE_LATENCY_MS_HISTO
                                (InMillisecondsF (f_timestamp frame_event - capture_end_time info))
                                (histograms s)\<rparr>
                     else s)
           in s1\<lparr>recent_frame_infos :=
                    map_modify (f_rtp_timestamp frame_event)
                      (\<lambda>i. i\<lparr>encode_time := f_timestamp frame_event\<rparr>)
                      (recent_frame_infos s1)\<rparr>))"

definition RecordFrameTxLatency ::
  "(TimeDelta \<times> TimeDelta) option \<Rightarrow> FrameEvent \<Rightarrow> StatsEventSubscriber \<Rightarrow> StatsEventSubscriber" where
  "RecordFrameTxLatency bounds frame_event s =
     (case map_of (recent_frame_infos s) (f_rtp_timestamp frame_event) of
        None \<Rightarrow> s
      | Some info \<Rightarrow>
          if is_null (encode_time info) then s
          else
            (case GetReceiverOffset bounds of
               None \<Rightarrow> s
             | Some receiver_offset \<Rightarrow>
                 (let sender_time = f_timestamp frame_event - receiver_offset
                  in s\<lparr>histograms :=
                         histograms_Add FRAME_LATENCY_MS_HISTO
                           (InMillisecondsF (sender_time - encode_time info))
                           (histograms s)\<rparr>)))"

definition RecordE2ELatency ::
  "(TimeDelta \<times> TimeDelta) option \<Rightarrow> FrameEvent \<Rightarrow> StatsEventSubscriber \<Rightarrow> StatsEventSubscriber" where
  "RecordE2ELatency bounds frame_event s =
     (case GetReceiverOffset bounds of
        None \<Rightarrow> s
      | Some receiver_offset \<Rightarrow>
          (case map_of (recent_frame_infos s) (f_rtp_timestamp frame_event) of
             None \<Rightarrow> s
           | Some info \<Rightarrow>
               (let playout_time =
                      f_timestamp frame_event + f_delay_delta frame_event - receiver_offset
                in s\<lparr>total_e2e_latency :=
                       total_e2e_latency s + (playout_time - capture_time info),
                     e2e_latency_datapoints := e2e_latency_datapoints s + 1\<rparr>)))"

subsection \<open>The packet cache\<close>

definition ErasePacketSentTime :: "PacketEvent \<Rightarrow> StatsEventSubscriber \<Rightarrow> StatsEventSubscriber" where
  "ErasePacketSentTime packet_event s =
     (let key = (p_rtp_timestamp packet_event, p_packet_id packet_event)
      in s\<lparr>packet_sent_times := map_erase key (packet_sent_times s)\<rparr>)"

definition RecordNetworkLatency ::
  "(TimeDelta \<times> TimeDelta) option \<Rightarrow> PacketEvent \<Rightarrow> StatsEventSubscriber \<Rightarrow> StatsEventSubscriber" where
  "RecordNetworkLatency bounds packet_event s =
     (case GetReceiverOffset bounds of
        None \<Rightarrow> s
      | Some receiver_offset \<Rightarrow>
          (let key = (p_rtp_timestamp packet_event, p_packet_id packet_event) in
           case map_of (packet_sent_times s) key of
             None \<Rightarrow>
               (let times = map_insert key (p_timestamp packet_event, p_type packet_event)
                              (packet_sent_times s)
                in s\<lparr>packet_sent_times :=
                       (if length times > kMaxPacketEventTimeMapSize then tl times else times)\<rparr>)
           | Some (recorded_time, recorded_type) \<Rightarrow>
               (let sent_received =
                      (if recorded_type = PACKET_SENT_TO_NETWORK \<and>
                          p_type packet_event = PACKET_RECEIVED
                       then Some (recorded_time, p_timestamp packet_event)
                       else if recorded_type = PACKET_RECEIVED \<and>
                               p_type packet_event = PACKET_SENT_TO_NETWORK
                       then Some (p_timestamp packet_event, recorded_time)
                       else None)
                in case sent_received of
                     None \<Rightarrow> s
                   | Some (packet_sent_time, packet_received_time) \<Rightarrow>
                       (let latency_delta =
                              (packet_received_time - receiver_offset) - packet_sent_time
                        in s\<lparr>total_network_latency := total_network_latency s + latency_delta,
                             network_latency_datapoints := network_latency_datapoints s + 1,
                             histograms :=
                               histograms_Add PACKET_LATENCY_MS_HISTO
                                 (InMillisecondsF latency_delta) (histograms s),
                             packet_sent_times := map_erase key (packet_sent_times s)\<rparr>))))"

subsection \<open>The event handlers\<close>

definition count_frame_event ::
  "FrameEvent \<Rightarrow> (CastLoggingEvent \<rightharpoonup> FrameLogStats) \<Rightarrow> (CastLoggingEvent \<rightharpoonup> FrameLogStats)" where
  "count_frame_event frame_event stats =
     (case stats (f_type frame_event) of
        None \<Rightarrow>
          stats(f_type frame_event \<mapsto>
            \<lparr>event_counter = 1, sum_size = f_size frame_event,
             sum_delay = f_delay_delta frame_event\<rparr>)
      | Some st \<Rightarrow>
          stats(f_type frame_event \<mapsto>
            st\<lparr>event_counter := event_counter st + 1,
               sum_size := sum_size st + f_size frame_event,
               sum_delay := sum_delay st + f_delay_delta frame_event\<rparr>))"

definition count_packet_event ::
  "PacketEvent \<Rightarrow> (CastLoggingEvent \<rightharpoonup> PacketLogStats) \<Rightarrow> (CastLoggingEvent \<rightharpoonup> PacketLogStats)" where
  "count_packet_event packet_event stats =
     (case stats (p_type packet_event) of
        None \<Rightarrow>
          stats(p_type packet_event \<mapsto>
            \<lparr>event_counter = 1, sum_size = p_size packet_event\<rparr>)
      | Some st \<Rightarrow>
          stats(p_type packet_event \<mapsto>
            st\<lparr>event_counter := event_counter st + 1,
               sum_size := sum_size st + p_size packet_event\<rparr>))"

definition dispatch_frame_event ::
  "nat \<Rightarrow> (TimeDelta \<times> TimeDelta) option \<Rightarrow> FrameEvent \<Rightarrow> StatsEventSubscriber
     \<Rightarrow> StatsEventSubscriber" where
  "dispatch_frame_event kMaxFrameInfoMapSize bounds frame_event s =
     (let type = f_type frame_event in
      if type = FRAME_CAPTURE_BEGIN then RecordFrameCaptureTime kMaxFrameInfoMapSize frame_event s
      else if type = FRAME_CAPTURE_END then RecordCaptureLatency frame_event s
      else if type = FRAME_ENCODED then RecordEncodeLatency kMaxFrameInfoMapSize frame_event s
      else if type = FRAME_ACK_SENT then RecordFrameTxLatency bounds frame_event s
      else if type = FRAME_PLAYOUT then
        (let s1 = RecordE2ELatency bounds frame_event s;
             delay_delta = f_delay_delta frame_event;
             s2 = s1\<lparr>histograms :=
                       histograms_Add PLAYOUT_DELAY_MS_HISTO (InMillisecondsF delay_delta)
                         (histograms s1)\<rparr>
         in if delay_delta \<le> 0 then s2\<lparr>num_frames_late := num_frames_late s2 + 1\<rparr> else s2)
      else s)"

definition OnReceiveFrameEvent ::
  "nat \<Rightarrow> (TimeDelta \<times> TimeDelta) option \<Rightarrow> FrameEvent \<Rightarrow> StatsEventSubscriber
     \<Rightarrow> StatsEventSubscriber" where
  "OnReceiveFrameEvent kMaxFrameInfoMapSize bounds frame_event s =
     (if f_media_type frame_event \<noteq> event_media_type s then s
      else
        let s1 = s\<lparr>frame_stats := count_frame_event frame_event (frame_stats s)\<rparr>;
            is_receiver_event = IsReceiverEvent (f_type frame_event);
            s2 = UpdateFirstLastEventTime bounds (f_timestamp frame_event) is_receiver_event s1;
            s3 = dispatch_frame_event kMaxFrameInfoMapSize bounds frame_event s2
        in if is_receiver_event
           then UpdateLastResponseTime bounds (f_timestamp frame_event) s3
           else s3)"

definition OnReceivePacketEvent ::
  "(TimeDelta \<times> TimeDelta) option \<Rightarrow> PacketEvent \<Rightarrow> StatsEventSubscriber \<Rightarrow> StatsEventSubscriber" where
  "OnReceivePacketEvent bounds packet_event s =
     (if p_media_type packet_event \<noteq> event_media_type s then s
      else
        let type = p_type packet_event;
            s1 = s\<lparr>packet_stats := count_packet_event packet_event (packet_stats s)\<rparr>;
            is_receiver_event = IsReceiverEvent type;
            s2 = UpdateFirstLastEventTime bounds (p_timestamp packet_event) is_receiver_event s1;
            s3 = (if type = PACKET_SENT_TO_NETWORK \<or> type = PACKET_RECEIVED
                  then RecordNetworkLatency bounds packet_event s2
                  else if type = PACKET_RETRANSMITTED
                  then ErasePacketSentTime packet_event s2
                  else s2)
        in if is_receiver_event
           then UpdateLastResponseTime bounds (p_timestamp packet_event) s3
           else s3)"

text \<open>\<open>Reset\<close>; \<open>now\<close> is the reading of the clock.\<close>

definition Reset :: "TimeTicks \<Rightarrow> StatsEventSubscriber \<Rightarrow> StatsEventSubscriber" where
  "Reset now s =
     s\<lparr>frame_stats := Map.empty,
       packet_stats := Map.empty,
       total_network_latency := 0,
       network_latency_datapoints := 0,
       total_e2e_latency := 0,
       e2e_latency_datapoints := 0,
       num_frames_dropped_by_encoder := 0,
       num_frames_late := 0,
       recent_frame_infos := [],
       packet_sent_times := [],
       start_time := now,
       last_response_received_time := 0,
       histograms := (\<lambda>stat. map_option Reset_histogram (histograms s stat)),
       first_event_time := 0,
       last_event_time := 0\<rparr>"

subsection \<open>The statistics\<close>

definition PopulateFpsStat ::
  "TimeTicks \<Rightarrow> CastLoggingEvent \<Rightarrow> CastStat \<Rightarrow> StatsEventSubscriber
     \<Rightarrow> (CastStat \<rightharpoonup> rat) \<Rightarrow> (CastStat \<rightharpoonup> rat)" where
  "PopulateFpsStat end_time event stat s stats_map =
     (case frame_stats s event of
        None \<Rightarrow> stats_map
      | Some st \<Rightarrow>
          (let duration = end_time - start_time s;
               fps = (if duration > 0 then of_nat (event_counter st) / InSecondsF duration
                      else 0)
           in stats_insert stat fps stats_map))"

definition PopulateFrameCountStat ::
  "CastLoggingEvent \<Rightarrow> CastStat \<Rightarrow> StatsEventSubscriber
     \<Rightarrow> (CastStat \<rightharpoonup> rat) \<Rightarrow> (CastStat \<rightharpoonup> rat)" where
  "PopulateFrameCountStat event stat s stats_map =
     (case frame_stats s event of
        None \<Rightarrow> stats_map
      | Some st \<Rightarrow> stats_insert stat (of_nat (event_counter st)) stats_map)"

definition PopulatePacketCountStat ::
  "CastLoggingEvent \<Rightarrow> CastStat \<Rightarrow> StatsEventSubscriber
     \<Rightarrow> (CastStat \<rightharpoonup> rat) \<Rightarrow> (CastStat \<rightharpoonup> rat)" where
  "PopulatePacketCountStat event stat s stats_map =
     (case packet_stats s event of
        None \<Rightarrow> stats_map
      | Some st \<Rightarrow> stats_insert stat (of_nat (event_counter st)) stats_map)"

definition PopulatePlayoutDelayStat ::
  "StatsEventSubscriber \<Rightarrow> (CastStat \<rightharpoonup> rat) \<Rightarrow> (CastStat \<rightharpoonup> rat)" where
  "PopulatePlayoutDelayStat s stats_map =
     (case frame_stats s FRAME_PLAYOUT of
        None \<Rightarrow> stats_map
      | Some st \<Rightarrow>
          (let avg_delay_ms =
                 (if event_counter st \<noteq> 0
                  then InMillisecondsF (sum_delay st) / of_nat (event_counter st)
                  else 0)
           in stats_insert AVG_PLAYOUT_DELAY_MS avg_delay_ms stats_map))"

definition PopulateFrameBitrateStat ::
  "TimeTicks \<Rightarrow> StatsEventSubscriber \<Rightarrow> (CastStat \<rightharpoonup> rat) \<Rightarrow> (CastStat \<rightharpoonup> rat)" where
  "PopulateFrameBitrateStat end_time s stats_map =
     (case frame_stats s FRAME_ENCODED of
        None \<Rightarrow> stats_map
      | Some st \<Rightarrow>
          (let duration = end_time - start_time s;
               kbps = (if duration > 0
                       then of_nat (sum_size st) / InMillisecondsF duration * 8
                       else 0)
           in stats_insert ENCODE_KBPS kbps stats_map))"

definition PopulatePacketBitrateStat ::
  "TimeTicks \<Rightarrow> CastLoggingEvent \<Rightarrow> CastStat \<Rightarrow> StatsEventSubscriber
     \<Rightarrow> (CastStat \<rightharpoonup> rat) \<Rightarrow> (CastStat \<rightharpoonup> rat)" where
  "PopulatePacketBitrateStat end_time event stat s stats_map =
     (case packet_stats s event of
        None \<Rightarrow> stats_map
      | Some st \<Rightarrow>
          (let duration = end_time - start_time s;
               kbps = (if duration > 0
                       then of_nat (sum_size st) / InMillisecondsF duration * 8
                       else 0)
           in stats_insert stat kbps stats_map))"

text \<open>The fraction that \<open>PopulatePacketLossPercentageStat\<close> inserts, with the two counts
  it is made of; \<open>None\<close> when the function returns before it divides.\<close>

definition packet_loss_counts :: "StatsEventSubscriber \<Rightarrow> (nat \<times> nat) option" where
  "packet_loss_counts s =
     (case packet_stats s PACKET_SENT_TO_NETWORK of
        None \<Rightarrow> None
      | Some sent \<Rightarrow>
          (let sent_count = event_counter sent;
               retransmitted_count =
                 (case packet_stats s PACKET_RETRANSMITTED of
                    None \<Rightarrow> 0
                  | Some retransmitted \<Rightarrow> event_counter retransmitted)
           in Some (sent_count, retransmitted_count)))"

definition PopulatePacketLossPercentageStat ::
  "StatsEventSubscriber \<Rightarrow> (CastStat \<rightharpoonup> rat) \<Rightarrow> (CastStat \<rightharpoonup> rat)" where
  "PopulatePacketLossPercentageStat s stats_map =
     (case packet_loss_counts s of
        None \<Rightarrow> stats_map
      | Some (sent_count, retransmitted_count) \<Rightarrow>
          (let packet_loss_fraction =
                 of_nat retransmitted_count / of_nat (sent_count + retransmitted_count)
           in stats_insert PACKET_LOSS_FRACTION packet_loss_fraction stats_map))"

text \<open>\<open>GetStatsInternal\<close>; \<open>end_time\<close> is the reading of the clock and \<open>unix_epoch\<close> is
  \<open>base::TimeTicks::UnixEpoch()\<close>.\<close>

definition GetStatsInternal ::
  "TimeTicks \<Rightarrow> TimeTicks \<Rightarrow> StatsEventSubscriber \<Rightarrow> (CastStat \<rightharpoonup> rat)" where
  "GetStatsInternal end_time unix_epoch s =
     (let m1 = PopulateFpsStat end_time FRAME_CAPTURE_BEGIN CAPTURE_FPS s Map.empty;
          m2 = PopulateFpsStat end_time FRAME_ENCODED ENCODE_FPS s m1;
          m3 = PopulateFpsStat end_time FRAME_DECODED DECODE_FPS s m2;
          m4 = PopulatePlayoutDelayStat s m3;
          m5 = PopulateFrameBitrateStat end_time s m4;
          m6 = PopulatePacketBitrateStat end_time PACKET_SENT_TO_NETWORK TRANSMISSION_KBPS s m5;
          m7 = PopulatePacketBitrateStat end_time PACKET_RETRANSMITTED RETRANSMISSION_KBPS s m6;
          m8 = PopulatePacketLossPercentageStat s m7;
          m9 = PopulateFrameCountStat FRAME_CAPTURE_END NUM_FRAMES_CAPTURED s m8;
          m10 = PopulatePacketCountStat PACKET_SENT_TO_NETWORK NUM_PACKETS_SENT s m9;
          m11 = PopulatePacketCountStat PACKET_RETRANSMITTED NUM_PACKETS_RETRANSMITTED s m10;
          m12 = PopulatePacketCountStat PACKET_RTX_REJECTED NUM_PACKETS_RTX_REJECTED s m11;
          m13 = (if network_latency_datapoints s > 0
                 then stats_insert AVG_NETWORK_LATENCY_MS
                        (InMillisecondsF (total_network_latency s) /
                           of_nat (network_latency_datapoints s)) m12
                 else m12);
          m14 = (if e2e_latency_datapoints s > 0
                 then stats_insert AVG_E2E_LATENCY_MS
                        (InMillisecondsF (total_e2e_latency s) /
                           of_nat (e2e_latency_datapoints s)) m13
                 else m13);
          m15 = (if \<not> is_null (last_response_received_time s)
                 then stats_insert MS_SINCE_LAST_RECEIVER_RESPONSE
                        (InMillisecondsF (end_time - last_response_received_time s)) m14
                 else m14);
          m16 = stats_insert NUM_FRAMES_DROPPED_BY_ENCODER
                  (of_nat (num_frames_dropped_by_encoder s)) m15;
          m17 = stats_insert NUM_FRAMES_LATE (of_nat (num_frames_late s)) m16;
          m18 = (if \<not> is_null (first_event_time s)
                 then stats_insert FIRST_EVENT_TIME_MS
                        (InMillisecondsF (first_event_time s - unix_epoch)) m17
                 else m17)
      in if \<not> is_null (last_event_time s)
         then stats_insert LAST_EVENT_TIME_MS
                (InMillisecondsF (last_event_time s - unix_epoch)) m18
         else m18)"

text \<open>\<open>GetStats\<close>: the name of the media type, the statistics and the histograms. The
  source puts the last two into one dictionary, under the names of the \<open>CastStat\<close>
  values.\<close>

definition GetStats ::
  "TimeTicks \<Rightarrow> TimeTicks \<Rightarrow> StatsEventSubscriber
     \<Rightarrow> string \<times> (CastStat \<rightharpoonup> rat) \<times> (CastStat \<rightharpoonup> (BucketLabel \<times> nat) list)" where
  "GetStats end_time unix_epoch s =
     (if event_media_type s = AUDIO_EVENT then ''audio'' else ''video'',
      GetStatsInternal end_time unix_epoch s,
      \<lambda>stat. map_option GetHistogram (histograms s stat))"

subsection \<open>Runs\<close>

text \<open>What reaches a subscriber: a frame event or a packet event, each with the answer
  that the offset estimator gives while the event is handled, or a call of \<open>Reset\<close>
  with the reading of the clock.\<close>

datatype Input =
    Frame "(TimeDelta \<times> TimeDelta) option" FrameEvent
  | Packet "(TimeDelta \<times> TimeDelta) option" PacketEvent
  | DoReset TimeTicks

fun step :: "nat \<Rightarrow> StatsEventSubscriber \<Rightarrow> Input \<Rightarrow> StatsEventSubscriber" where
  "step kMaxFrameInfoMapSize s (Frame bounds frame_event) =
     OnReceiveFrameEvent kMaxFrameInfoMapSize bounds frame_event s"
| "step kMaxFrameInfoMapSize s (Packet bounds packet_event) =
     OnReceivePacketEvent bounds packet_event s"
| "step kMaxFrameInfoMapSize s (DoReset now) = Reset now s"

definition run :: "nat \<Rightarrow> StatsEventSubscriber \<Rightarrow> Input list \<Rightarrow> StatsEventSubscriber" where
  "run kMaxFrameInfoMapSize s inputs = foldl (step kMaxFrameInfoMapSize) s inputs"

text \<open>What the constructor establishes and \<open>Add\<close> and \<open>Reset\<close> keep: more than two
  buckets and, when the range is not empty, a positive width that divides it into the
  inner buckets.\<close>


definition hist_ok :: "SimpleHistogram \<Rightarrow> bool" where
  "hist_ok h =
     (2 < length (buckets h) \<and>
      (h_max h \<le> h_min h \<or>
       (0 < h_width h \<and> h_max h - h_min h = (int (length (buckets h)) - 2) * h_width h)))"

subsection \<open>Invariants of the subscriber\<close>

text \<open>Every histogram of the state has the shape that \<open>InitHistograms\<close> gave it.\<close>

definition histograms_ok :: "(CastStat \<rightharpoonup> SimpleHistogram) \<Rightarrow> bool" where
  "histograms_ok hs = (\<forall>stat. map_option Reset_histogram (hs stat) = InitHistograms stat)"

text \<open>An event kind with an entry in \<open>packet_stats_\<close> has been counted at least once.\<close>

definition counters_ok :: "(CastLoggingEvent \<rightharpoonup> PacketLogStats) \<Rightarrow> bool" where
  "counters_ok stats = (\<forall>event st. stats event = Some st \<longrightarrow> 1 \<le> event_counter st)"

text \<open>The two \<open>std::map\<close>s are in ascending key order, without a repeated key.\<close>

definition subscriber_inv :: "EventMediaType \<Rightarrow> StatsEventSubscriber \<Rightarrow> bool" where
  "subscriber_inv media s =
     (event_media_type s = media \<and>
      counters_ok (packet_stats s) \<and>
      histograms_ok (histograms s) \<and>
      sorted_wrt (<) (map fst (packet_sent_times s)) \<and>
      sorted_wrt (<) (map fst (recent_frame_infos s)))"

subsection \<open>A sender that fills the packet cache\<close>

text \<open>The inputs \<open>sent_packets k\<close> are \<open>k\<close> sent-to-network events of video packets, of the
  frames with RTP timestamps 1 to \<open>k\<close>, each handled while the offset estimator answers
  with the bounds 0 and 0.\<close>

definition sent_packet :: "nat \<Rightarrow> PacketEvent" where
  "sent_packet i =
     \<lparr>p_timestamp = 1, p_type = PACKET_SENT_TO_NETWORK, p_media_type = VIDEO_EVENT,
      p_rtp_timestamp = of_nat i, p_packet_id = 0, p_size = 0\<rparr>"

definition sent_packets :: "nat \<Rightarrow> Input list" where
  "sent_packets k = map (\<lambda>i. Packet (Some (0, 0)) (sent_packet i)) [1 ..< Suc k]"

definition full_packet_cache :: StatsEventSubscriber where
  "full_packet_cache = run 100 (StatsEventSubscriber_ctor VIDEO_EVENT 0) (sent_packets 1000)"

section \<open>The frame-id wrap helper\<close>

lemma unat_ucast_8_32: "unat (ucast (v :: 8 word) :: 32 word) = unat v"
  by (simp add: unsigned_ucast_eq take_bit_nat_eq_self_iff)
     (rule order_less_trans [OF unsigned_less], simp)

lemma unat_top_plus_ucast:
  "unat (0xffffff00 + ucast (v :: 8 word) :: 32 word) = 0xffffff00 + unat v"
proof -
  have "unat v < 256"
    using unsigned_less [of v] by simp
  then show ?thesis
    by (simp add: unat_word_ariths unat_ucast_8_32)
qed

lemma push_bit_8_minus_1: "push_bit 8 (0 - 1 :: 32 word) = 0xffffff00"
  by (simp add: push_bit_eq_mult)

lemmas wrap_helper_defs =
  MapTo32bitsFrameId_def wrap_switch_def Let_def FrameIdWrapHelper_ctor_def
  kLowRangeThreshold_def kHighRangeThreshold_def kStartFrameId_def

text \<open>
  Claim C2. Each call of \<open>MapTo32bitsFrameId\<close> does what the description of the resolver
  says (\<open>spec_resolve\<close>): a first call with \<open>0xFF\<close> returns \<open>0xFFFFFFFF\<close> and only
  clears the first-call flag; otherwise the zone moves Low to Middle on \<open>63 < v < 192\<close>,
  Middle to High on \<open>v \<ge> 192\<close>, High to Low on \<open>v \<le> 63\<close> with the stored and the
  effective wrap count both incremented, a value \<open>v \<ge> 192\<close> in Low uses \<open>w - 1\<close> for this
  id only, and the id is the effective wrap count shifted left by 8, plus \<open>v\<close>. After a
  first call of \<open>0xFF\<close>, the values 0, 50, 100, 150, 200, 250, 10, 60 give strictly
  increasing ids, and the stored wrap count goes up once, at the call with 10.
\<close>

theorem MapTo32bitsFrameId_per_call:
  "MapTo32bitsFrameId v h = spec_resolve v h
   \<and> map fst (map_frame_ids [0xff, 0, 50, 100, 150, 200, 250, 10, 60] FrameIdWrapHelper_ctor)
       = [0xffffffff, 0, 50, 100, 150, 200, 250, 266, 316]
   \<and> sorted_wrt (<)
       (tl (map fst
          (map_frame_ids [0xff, 0, 50, 100, 150, 200, 250, 10, 60] FrameIdWrapHelper_ctor)))
   \<and> map (frame_id_wrap_count \<circ> snd)
         (map_frame_ids [0xff, 0, 50, 100, 150, 200, 250, 10, 60] FrameIdWrapHelper_ctor)
       = [0, 0, 0, 0, 0, 0, 0, 1, 1]"
proof -
  have step: "MapTo32bitsFrameId v h = spec_resolve v h"
    by (cases h; cases "wrap_range h")
       (auto simp: wrap_helper_defs spec_resolve_def
          spec_effective_wrap_def spec_stored_wrap_def spec_next_range_def
          word_less_nat_alt word_le_nat_alt)
  have ids:
    "map fst (map_frame_ids [0xff, 0, 50, 100, 150, 200, 250, 10, 60] FrameIdWrapHelper_ctor)
       = [0xffffffff, 0, 50, 100, 150, 200, 250, 266, 316]"
    by (simp add: wrap_helper_defs)
  have incr:
    "sorted_wrt (<)
       (tl (map fst
          (map_frame_ids [0xff, 0, 50, 100, 150, 200, 250, 10, 60] FrameIdWrapHelper_ctor)))"
    unfolding ids by simp
  have wraps:
    "map (frame_id_wrap_count \<circ> snd)
         (map_frame_ids [0xff, 0, 50, 100, 150, 200, 250, 10, 60] FrameIdWrapHelper_ctor)
       = [0, 0, 0, 0, 0, 0, 0, 1, 1]"
    by (simp add: wrap_helper_defs)
  from step ids incr wraps show ?thesis by blast
qed

text \<open>
  Claim C10. The decrement of the effective wrap count is that of \<open>uint32\<close>: in the low
  range with a stored wrap count of 0, a wire value \<open>v\<close> with \<open>192 \<le> v < 255\<close> is mapped
  to \<open>0xFFFFFF00 + v\<close>, which as a number is \<open>2^32 - 256 + v\<close>; the stored wrap count
  stays 0. This holds for the first call as well as for a later one.
\<close>

theorem MapTo32bitsFrameId_stale_underflow:
  assumes "wrap_range h = kLowRange" and "frame_id_wrap_count h = 0"
    and "192 \<le> v" and "v < 255"
  shows "fst (MapTo32bitsFrameId v h) = 0xffffff00 + ucast v
    \<and> unat (fst (MapTo32bitsFrameId v h)) = 2 ^ 32 - 256 + unat v
    \<and> 2 ^ 32 - 64 \<le> unat (fst (MapTo32bitsFrameId v h))
    \<and> frame_id_wrap_count (snd (MapTo32bitsFrameId v h)) = 0"
proof -
  have "fst (MapTo32bitsFrameId v h) = push_bit 8 (0 - 1) + ucast v"
    using assms by (auto simp: wrap_helper_defs simp del: push_bit_minus_one)
  then have id: "fst (MapTo32bitsFrameId v h) = 0xffffff00 + ucast v"
    by (simp only: push_bit_8_minus_1)
  have "192 \<le> unat v"
    using assms(3) by (simp add: word_le_nat_alt)
  with id have "unat (fst (MapTo32bitsFrameId v h)) = 2 ^ 32 - 256 + unat v"
    and "2 ^ 32 - 64 \<le> unat (fst (MapTo32bitsFrameId v h))"
    by (simp_all add: unat_top_plus_ucast)
  moreover have "frame_id_wrap_count (snd (MapTo32bitsFrameId v h)) = 0"
    using assms by (auto simp: wrap_helper_defs)
  ultimately show ?thesis using id by blast
qed

theorem MapTo32bitsFrameId_stale_underflow_witness:
  "fst (MapTo32bitsFrameId 200 FrameIdWrapHelper_ctor) = 0xffffffc8
   \<and> unat (fst (MapTo32bitsFrameId 200 FrameIdWrapHelper_ctor)) = 4294967240"
  using MapTo32bitsFrameId_stale_underflow [of FrameIdWrapHelper_ctor 200]
  by (simp add: FrameIdWrapHelper_ctor_def)

section \<open>SimpleHistogram\<close>

lemma int_div_less:
  fixes a w n :: int
  assumes "0 < w" "a < n * w"
  shows "a div w < n"
proof (rule ccontr)
  assume "\<not> a div w < n"
  then have "n * w \<le> (a div w) * w"
    using assms(1) by (simp add: mult_right_mono)
  moreover have "(a div w) * w \<le> a"
    using div_mult_mod_eq [of a w] pos_mod_sign [OF assms(1), of a] by linarith
  ultimately show False using assms(2) by linarith
qed

lemma int64_div_nonneg: "0 \<le> a \<Longrightarrow> 0 < b \<Longrightarrow> int64_div a b = a div b"
  by (cases "a = 0") (simp_all add: int64_div_def)

lemma ctor_fields:
  assumes "SimpleHistogram_ctor mn mx width = Some h"
  shows "h_min h = mn" "h_max h = mx" "h_width h = width"
    "buckets h = replicate (nat (int64_div (mx - mn) width + 2)) 0"
    "width \<noteq> 0" "0 < int64_div (mx - mn) width" "int64_rem (mx - mn) width = 0"
  using assms by (auto simp: SimpleHistogram_ctor_def Let_def split: if_splits)

lemma ctor_hist_ok:
  assumes "SimpleHistogram_ctor mn mx width = Some h"
  shows "hist_ok h"
proof -
  note f = ctor_fields [OF assms]
  let ?q = "int64_div (mx - mn) width"
  have len: "int (length (buckets h)) = ?q + 2"
    using f(4,6) by simp
  have eq: "mx - mn = width * ?q"
    using f(7) by (simp add: int64_rem_def)
  show ?thesis
  proof (cases "0 < width")
    case True
    then show ?thesis
      using len eq f(1,2,3,6) by (simp add: hist_ok_def mult.commute)
  next
    case False
    with f(5) have neg: "width < 0" by simp
    have "width * ?q < 0"
      using neg f(6) by (simp add: mult_neg_pos)
    with eq have "mx < mn" by simp
    then show ?thesis
      using len f(1,2,6) by (simp add: hist_ok_def)
  qed
qed

lemma Add_index_in_range:
  assumes "hist_ok h"
  shows "Add_index s h < length (buckets h)"
proof -
  from assms have len: "2 < length (buckets h)"
    by (simp add: hist_ok_def)
  show ?thesis
  proof (cases "s < h_min h \<or> h_max h \<le> s")
    case True
    then show ?thesis using len by (auto simp: Add_index_def)
  next
    case False
    then have s: "h_min h \<le> s" "s < h_max h" by simp_all
    then have "h_min h < h_max h" by simp
    with assms have w: "0 < h_width h"
      and d: "h_max h - h_min h = (int (length (buckets h)) - 2) * h_width h"
      by (simp_all add: hist_ok_def)
    have "s - h_min h < (int (length (buckets h)) - 2) * h_width h"
      using s d by simp
    then have "(s - h_min h) div h_width h < int (length (buckets h)) - 2"
      using w by (simp add: int_div_less)
    moreover have "0 \<le> (s - h_min h) div h_width h"
      using s w by (simp add: pos_imp_zdiv_nonneg_iff)
    ultimately show ?thesis
      using s w by (simp add: Add_index_def int64_div_nonneg)
  qed
qed

lemma sum_list_bump:
  "i < length xs \<Longrightarrow> sum_list (xs[i := Suc (xs ! i)]) = Suc (sum_list (xs :: nat list))"
  by (induction xs arbitrary: i) (auto split: nat.splits)

lemma Add_fields [simp]:
  "h_min (Add s h) = h_min h" "h_max (Add s h) = h_max h" "h_width (Add s h) = h_width h"
  "length (buckets (Add s h)) = length (buckets h)"
  by (simp_all add: Add_def Let_def)

lemma Add_hist_ok: "hist_ok h \<Longrightarrow> hist_ok (Add s h)"
  by (simp add: hist_ok_def)

lemma Add_sum: "hist_ok h \<Longrightarrow> sum_list (buckets (Add s h)) = Suc (sum_list (buckets h))"
  by (simp add: Add_def Let_def sum_list_bump Add_index_in_range)

lemma Add_all_hist_ok: "hist_ok h \<Longrightarrow> hist_ok (Add_all xs h)"
  by (induction xs arbitrary: h) (simp_all add: Add_all_def Add_hist_ok)

lemma Add_all_fields [simp]:
  "h_min (Add_all xs h) = h_min h" "h_max (Add_all xs h) = h_max h"
  "h_width (Add_all xs h) = h_width h"
  "length (buckets (Add_all xs h)) = length (buckets h)"
  by (induction xs arbitrary: h) (simp_all add: Add_all_def)

lemma Add_all_sum:
  "hist_ok h \<Longrightarrow> sum_list (buckets (Add_all xs h)) = sum_list (buckets h) + length xs"
proof (induction xs arbitrary: h)
  case Nil
  then show ?case by (simp add: Add_all_def)
next
  case (Cons x xs)
  have "Add_all (x # xs) h = Add_all xs (Add x h)"
    by (simp add: Add_all_def)
  then show ?case
    using Cons.IH [OF Add_hist_ok [OF Cons.prems]] Add_sum [OF Cons.prems] by simp
qed

lemma Reset_histogram_ok: "hist_ok h \<Longrightarrow> hist_ok (Reset_histogram h)"
  by (simp add: hist_ok_def Reset_histogram_def)

lemma Reset_histogram_sum: "sum_list (buckets (Reset_histogram h)) = 0"
  by (simp add: Reset_histogram_def)

lemma Add_index_interior:
  assumes "hist_ok h" "h_min h \<le> s" "s < h_max h"
  shows "Add_index s h = nat (1 + (s - h_min h) div h_width h)"
proof -
  from assms have "0 < h_width h" by (auto simp: hist_ok_def)
  with assms show ?thesis by (simp add: Add_index_def int64_div_nonneg)
qed

lemma ctor_0_800_20:
  "SimpleHistogram_ctor 0 800 20 =
     Some \<lparr>h_min = 0, h_max = 800, h_width = 20, buckets = replicate 42 0\<rparr>"
  by (simp add: SimpleHistogram_ctor_def int64_div_def int64_rem_def Let_def)

text \<open>
  Claim C5. For a histogram that the constructor returned (so the width divides
  \<open>max - min\<close>), \<open>Add(s)\<close> increments bucket 0 when \<open>s < min\<close>, else the last bucket
  when \<open>s \<ge> max\<close>, else bucket \<open>1 + (s - min) div width\<close>, and that bucket exists; with
  a positive width \<open>min < max\<close>, so that the three cases exclude each other. With
  \<open>(0, 800, 20)\<close> there are 42 buckets; \<open>-5\<close> goes to bucket 0, \<open>799\<close> to bucket 40, and
  \<open>800\<close> and \<open>10000\<close> to bucket 41. The counts add up to the number of \<open>Add\<close> calls
  since the construction, and since the last \<open>Reset\<close>.
\<close>

theorem SimpleHistogram_Add_buckets:
  assumes "SimpleHistogram_ctor mn mx width = Some h0"
  shows "Add_index s (Add_all before h0) =
           (if s < mn then 0
            else if mx \<le> s then length (buckets h0) - 1
            else nat (1 + (s - mn) div width))
    \<and> Add_index s (Add_all before h0) < length (buckets h0)
    \<and> int (length (buckets h0)) = (mx - mn) div width + 2
    \<and> (0 < width \<longrightarrow> mn < mx)
    \<and> buckets (Add s (Add_all before h0)) =
        (buckets (Add_all before h0))
          [Add_index s (Add_all before h0) :=
             Suc (buckets (Add_all before h0) ! Add_index s (Add_all before h0))]
    \<and> sum_list (buckets (Add_all samples h0)) = length samples
    \<and> sum_list (buckets (Add_all samples (Reset_histogram (Add_all before h0)))) =
        length samples
    \<and> map_option
         (\<lambda>h. (length (buckets h), Add_index (- 5) h, Add_index 799 h, Add_index 800 h,
               Add_index 10000 h))
         (SimpleHistogram_ctor 0 800 20) = Some (42, 0, 40, 41, 41)"
proof -
  note f = ctor_fields [OF assms]
  have ok0: "hist_ok h0" by (rule ctor_hist_ok [OF assms])
  let ?h = "Add_all before h0"
  have ok: "hist_ok ?h" by (rule Add_all_hist_ok [OF ok0])
  have idx: "Add_index s ?h =
           (if s < mn then 0
            else if mx \<le> s then length (buckets h0) - 1
            else nat (1 + (s - mn) div width))"
  proof (cases "s < mn \<or> mx \<le> s")
    case True
    then show ?thesis using f(1,2) by (auto simp: Add_index_def)
  next
    case False
    then show ?thesis
      using Add_index_interior [OF ok, of s] f(1,2,3) by simp
  qed
  have rng: "Add_index s ?h < length (buckets h0)"
    using Add_index_in_range [OF ok, of s] by simp
  have mult: "mx - mn = width * int64_div (mx - mn) width"
    using f(7) by (simp add: int64_rem_def)
  have len: "int (length (buckets h0)) = (mx - mn) div width + 2"
  proof -
    have "(mx - mn) div width = int64_div (mx - mn) width"
      using mult f(5) by (metis nonzero_mult_div_cancel_left)
    then show ?thesis using f(4,6) by simp
  qed
  have excl: "0 < width \<longrightarrow> mn < mx"
  proof
    assume "0 < width"
    then have "0 < width * int64_div (mx - mn) width"
      using f(6) by simp
    with mult show "mn < mx" by simp
  qed
  have upd: "buckets (Add s ?h) =
        (buckets ?h)[Add_index s ?h := Suc (buckets ?h ! Add_index s ?h)]"
    by (simp add: Add_def Let_def)
  have z: "sum_list (buckets h0) = 0" using f(4) by simp
  have tot: "sum_list (buckets (Add_all samples h0)) = length samples"
    using Add_all_sum [OF ok0, of samples] z by simp
  have tot2: "sum_list (buckets (Add_all samples (Reset_histogram ?h))) = length samples"
    using Add_all_sum [OF Reset_histogram_ok [OF ok], of samples]
    by (simp add: Reset_histogram_sum)
  have ex: "map_option
         (\<lambda>h. (length (buckets h), Add_index (- 5) h, Add_index 799 h, Add_index 800 h,
               Add_index 10000 h))
         (SimpleHistogram_ctor 0 800 20) = Some (42, 0, 40, 41, 41)"
    by (simp add: ctor_0_800_20 Add_index_def int64_div_def)
  from idx rng len excl upd tot tot2 ex show ?thesis by blast
qed

theorem SimpleHistogram_Add_buckets_witness:
  "sum_list (buckets (Add_all [- 5, 799, 800, 10000]
      \<lparr>h_min = 0, h_max = 800, h_width = 20, buckets = replicate 42 0\<rparr>)) = 4
   \<and> Add_index 25 \<lparr>h_min = 0, h_max = 800, h_width = 20, buckets = replicate 42 0\<rparr> = 2"
  using SimpleHistogram_Add_buckets [OF ctor_0_800_20, of 25 "[]" "[- 5, 799, 800, 10000]"]
  by (simp add: Add_all_def)

section \<open>Ordered maps\<close>

lemma set_map_insert:
  "fst ` set (map_insert k v ps) = insert k (fst ` set ps)"
proof (induction ps)
  case Nil
  then show ?case by simp
next
  case (Cons p ps)
  obtain a b where p: "p = (a, b)" by (cases p)
  show ?case
    unfolding p by (cases "k < a"; cases "k = a"; simp add: Cons.IH insert_commute)
qed

lemma sorted_map_insert:
  "sorted_wrt (<) (map fst ps) \<Longrightarrow> sorted_wrt (<) (map fst (map_insert k v ps))"
proof (induction ps)
  case Nil
  then show ?case by simp
next
  case (Cons p ps)
  obtain a b where p: "p = (a, b)" by (cases p)
  have "\<forall>x \<in> fst ` set (map_insert k v ps). a < x" if "a < k"
    using Cons.prems that unfolding set_map_insert p by auto
  with Cons show ?case
    unfolding p by auto
qed

lemma map_of_map_insert_absent:
  "map_of ps k = None \<Longrightarrow> map_of (map_insert k v ps) = (map_of ps)(k \<mapsto> v)"
  by (induction ps) (auto split: if_splits)

lemma length_map_insert_absent:
  "map_of ps k = None \<Longrightarrow> length (map_insert k v ps) = Suc (length ps)"
  by (induction ps) (auto split: if_splits)

lemma length_map_insert_le: "length (map_insert k v ps) \<le> Suc (length ps)"
  by (induction ps) auto

lemma map_insert_present:
  "sorted_wrt (<) (map fst ps) \<Longrightarrow> map_of ps k = Some y \<Longrightarrow> map_insert k v ps = ps"
proof (induction ps)
  case Nil
  then show ?case by simp
next
  case (Cons p ps)
  obtain a b where p: "p = (a, b)" by (cases p)
  have "k \<in> fst ` set ps" if "k \<noteq> a"
    using Cons.prems(2) that unfolding p by (force dest: map_of_SomeD)
  with Cons show ?case
    unfolding p by (auto split: if_splits)
qed

lemma set_map_erase: "set (map_erase k ps) \<subseteq> set ps"
  by (induction ps) (auto split: if_splits)

lemma sorted_map_erase:
  "sorted_wrt (<) (map fst ps) \<Longrightarrow> sorted_wrt (<) (map fst (map_erase k ps))"
proof (induction ps)
  case Nil
  then show ?case by simp
next
  case (Cons p ps)
  then show ?case
    using set_map_erase [of k ps] by (cases p) auto
qed

lemma map_of_sorted_head:
  "sorted_wrt (<) (map fst ((a, b) # ps)) \<Longrightarrow> map_of ps (a :: 'k :: linorder) = None"
  by (auto simp: map_of_eq_None_iff)

lemma map_of_map_erase:
  "sorted_wrt (<) (map fst ps) \<Longrightarrow>
     map_of (map_erase k ps) k' = (if k' = k then None else map_of ps (k' :: 'k :: linorder))"
proof (induction ps)
  case Nil
  then show ?case by simp
next
  case (Cons p ps)
  obtain a b where p: "p = (a, b)" by (cases p)
  show ?case
    using Cons map_of_sorted_head [of a b ps] unfolding p by auto
qed

lemma length_map_erase_le: "length (map_erase k ps) \<le> length ps"
  by (induction ps) auto

lemma map_fst_map_modify: "map fst (map_modify k f ps) = map fst ps"
  by (induction ps) auto

lemma map_of_map_modify:
  "map_of (map_modify k f ps) k' =
     (if k' = k then map_option f (map_of ps k) else map_of ps k')"
  by (induction ps) auto

lemma sorted_tl: "sorted_wrt (<) (map fst ps) \<Longrightarrow> sorted_wrt (<) (map fst (tl ps))"
  by (cases ps) auto

section \<open>The stats event subscriber\<close>

subsection \<open>What each handler leaves alone\<close>

lemma set_first_last_keeps [simp]:
  "event_media_type (set_first_last timestamp s) = event_media_type s"
  "frame_stats (set_first_last timestamp s) = frame_stats s"
  "packet_stats (set_first_last timestamp s) = packet_stats s"
  "total_network_latency (set_first_last timestamp s) = total_network_latency s"
  "network_latency_datapoints (set_first_last timestamp s) = network_latency_datapoints s"
  "total_e2e_latency (set_first_last timestamp s) = total_e2e_latency s"
  "e2e_latency_datapoints (set_first_last timestamp s) = e2e_latency_datapoints s"
  "num_frames_dropped_by_encoder (set_first_last timestamp s) = num_frames_dropped_by_encoder s"
  "num_frames_late (set_first_last timestamp s) = num_frames_late s"
  "recent_frame_infos (set_first_last timestamp s) = recent_frame_infos s"
  "packet_sent_times (set_first_last timestamp s) = packet_sent_times s"
  "start_time (set_first_last timestamp s) = start_time s"
  "last_response_received_time (set_first_last timestamp s) = last_response_received_time s"
  "histograms (set_first_last timestamp s) = histograms s"
  by (simp_all add: set_first_last_def)

lemma UpdateFirstLastEventTime_keeps [simp]:
  "event_media_type (UpdateFirstLastEventTime bounds timestamp r s) = event_media_type s"
  "frame_stats (UpdateFirstLastEventTime bounds timestamp r s) = frame_stats s"
  "packet_stats (UpdateFirstLastEventTime bounds timestamp r s) = packet_stats s"
  "total_network_latency (UpdateFirstLastEventTime bounds timestamp r s) = total_network_latency s"
  "network_latency_datapoints (UpdateFirstLastEventTime bounds timestamp r s) = network_latency_datapoints s"
  "total_e2e_latency (UpdateFirstLastEventTime bounds timestamp r s) = total_e2e_latency s"
  "e2e_latency_datapoints (UpdateFirstLastEventTime bounds timestamp r s) = e2e_latency_datapoints s"
  "num_frames_dropped_by_encoder (UpdateFirstLastEventTime bounds timestamp r s) = num_frames_dropped_by_encoder s"
  "num_frames_late (UpdateFirstLastEventTime bounds timestamp r s) = num_frames_late s"
  "recent_frame_infos (UpdateFirstLastEventTime bounds timestamp r s) = recent_frame_infos s"
  "packet_sent_times (UpdateFirstLastEventTime bounds timestamp r s) = packet_sent_times s"
  "start_time (UpdateFirstLastEventTime bounds timestamp r s) = start_time s"
  "last_response_received_time (UpdateFirstLastEventTime bounds timestamp r s) = last_response_received_time s"
  "histograms (UpdateFirstLastEventTime bounds timestamp r s) = histograms s"
  by (simp_all add: UpdateFirstLastEventTime_def split: option.splits)

lemma UpdateLastResponseTime_keeps [simp]:
  "event_media_type (UpdateLastResponseTime bounds timestamp s) = event_media_type s"
  "frame_stats (UpdateLastResponseTime bounds timestamp s) = frame_stats s"
  "packet_stats (UpdateLastResponseTime bounds timestamp s) = packet_stats s"
  "total_network_latency (UpdateLastResponseTime bounds timestamp s) = total_network_latency s"
  "network_latency_datapoints (UpdateLastResponseTime bounds timestamp s) = network_latency_datapoints s"
  "total_e2e_latency (UpdateLastResponseTime bounds timestamp s) = total_e2e_latency s"
  "e2e_latency_datapoints (UpdateLastResponseTime bounds timestamp s) = e2e_latency_datapoints s"
  "num_frames_dropped_by_encoder (UpdateLastResponseTime bounds timestamp s) = num_frames_dropped_by_encoder s"
  "num_frames_late (UpdateLastResponseTime bounds timestamp s) = num_frames_late s"
  "recent_frame_infos (UpdateLastResponseTime bounds timestamp s) = recent_frame_infos s"
  "packet_sent_times (UpdateLastResponseTime bounds timestamp s) = packet_sent_times s"
  "start_time (UpdateLastResponseTime bounds timestamp s) = start_time s"
  "first_event_time (UpdateLastResponseTime bounds timestamp s) = first_event_time s"
  "last_event_time (UpdateLastResponseTime bounds timestamp s) = last_event_time s"
  "histograms (UpdateLastResponseTime bounds timestamp s) = histograms s"
  by (simp_all add: UpdateLastResponseTime_def split: option.splits)

lemma MaybeInsertFrameInfo_keeps [simp]:
  "event_media_type (MaybeInsertFrameInfo n rtp info s) = event_media_type s"
  "frame_stats (MaybeInsertFrameInfo n rtp info s) = frame_stats s"
  "packet_stats (MaybeInsertFrameInfo n rtp info s) = packet_stats s"
  "total_network_latency (MaybeInsertFrameInfo n rtp info s) = total_network_latency s"
  "network_latency_datapoints (MaybeInsertFrameInfo n rtp info s) = network_latency_datapoints s"
  "total_e2e_latency (MaybeInsertFrameInfo n rtp info s) = total_e2e_latency s"
  "e2e_latency_datapoints (MaybeInsertFrameInfo n rtp info s) = e2e_latency_datapoints s"
  "num_frames_late (MaybeInsertFrameInfo n rtp info s) = num_frames_late s"
  "packet_sent_times (MaybeInsertFrameInfo n rtp info s) = packet_sent_times s"
  "start_time (MaybeInsertFrameInfo n rtp info s) = start_time s"
  "last_response_received_time (MaybeInsertFrameInfo n rtp info s) = last_response_received_time s"
  "first_event_time (MaybeInsertFrameInfo n rtp info s) = first_event_time s"
  "last_event_time (MaybeInsertFrameInfo n rtp info s) = last_event_time s"
  "histograms (MaybeInsertFrameInfo n rtp info s) = histograms s"
  by (simp_all add: MaybeInsertFrameInfo_def Let_def split: list.splits)

lemma RecordFrameCaptureTime_keeps [simp]:
  "event_media_type (RecordFrameCaptureTime n e s) = event_media_type s"
  "frame_stats (RecordFrameCaptureTime n e s) = frame_stats s"
  "packet_stats (RecordFrameCaptureTime n e s) = packet_stats s"
  "total_network_latency (RecordFrameCaptureTime n e s) = total_network_latency s"
  "network_latency_datapoints (RecordFrameCaptureTime n e s) = network_latency_datapoints s"
  "total_e2e_latency (RecordFrameCaptureTime n e s) = total_e2e_latency s"
  "e2e_latency_datapoints (RecordFrameCaptureTime n e s) = e2e_latency_datapoints s"
  "num_frames_late (RecordFrameCaptureTime n e s) = num_frames_late s"
  "packet_sent_times (RecordFrameCaptureTime n e s) = packet_sent_times s"
  "start_time (RecordFrameCaptureTime n e s) = start_time s"
  "last_response_received_time (RecordFrameCaptureTime n e s) = last_response_received_time s"
  "first_event_time (RecordFrameCaptureTime n e s) = first_event_time s"
  "last_event_time (RecordFrameCaptureTime n e s) = last_event_time s"
  "histograms (RecordFrameCaptureTime n e s) = histograms s"
  by (simp_all add: RecordFrameCaptureTime_def)

lemma RecordCaptureLatency_keeps [simp]:
  "event_media_type (RecordCaptureLatency e s) = event_media_type s"
  "frame_stats (RecordCaptureLatency e s) = frame_stats s"
  "packet_stats (RecordCaptureLatency e s) = packet_stats s"
  "total_network_latency (RecordCaptureLatency e s) = total_network_latency s"
  "network_latency_datapoints (RecordCaptureLatency e s) = network_latency_datapoints s"
  "total_e2e_latency (RecordCaptureLatency e s) = total_e2e_latency s"
  "e2e_latency_datapoints (RecordCaptureLatency e s) = e2e_latency_datapoints s"
  "num_frames_dropped_by_encoder (RecordCaptureLatency e s) = num_frames_dropped_by_encoder s"
  "num_frames_late (RecordCaptureLatency e s) = num_frames_late s"
  "packet_sent_times (RecordCaptureLatency e s) = packet_sent_times s"
  "start_time (RecordCaptureLatency e s) = start_time s"
  "last_response_received_time (RecordCaptureLatency e s) = last_response_received_time s"
  "first_event_time (RecordCaptureLatency e s) = first_event_time s"
  "last_event_time (RecordCaptureLatency e s) = last_event_time s"
  by (simp_all add: RecordCaptureLatency_def Let_def split: option.splits)

lemma RecordEncodeLatency_keeps [simp]:
  "event_media_type (RecordEncodeLatency n e s) = event_media_type s"
  "frame_stats (RecordEncodeLatency n e s) = frame_stats s"
  "packet_stats (RecordEncodeLatency n e s) = packet_stats s"
  "total_network_latency (RecordEncodeLatency n e s) = total_network_latency s"
  "network_latency_datapoints (RecordEncodeLatency n e s) = network_latency_datapoints s"
  "total_e2e_latency (RecordEncodeLatency n e s) = total_e2e_latency s"
  "e2e_latency_datapoints (RecordEncodeLatency n e s) = e2e_latency_datapoints s"
  "num_frames_late (RecordEncodeLatency n e s) = num_frames_late s"
  "packet_sent_times (RecordEncodeLatency n e s) = packet_sent_times s"
  "start_time (RecordEncodeLatency n e s) = start_time s"
  "last_response_received_time (RecordEncodeLatency n e s) = last_response_received_time s"
  "first_event_time (RecordEncodeLatency n e s) = first_event_time s"
  "last_event_time (RecordEncodeLatency n e s) = last_event_time s"
  by (simp_all add: RecordEncodeLatency_def Let_def split: option.splits)

lemma RecordFrameTxLatency_keeps [simp]:
  "event_media_type (RecordFrameTxLatency bounds e s) = event_media_type s"
  "frame_stats (RecordFrameTxLatency bounds e s) = frame_stats s"
  "packet_stats (RecordFrameTxLatency bounds e s) = packet_stats s"
  "total_network_latency (RecordFrameTxLatency bounds e s) = total_network_latency s"
  "network_latency_datapoints (RecordFrameTxLatency bounds e s) = network_latency_datapoints s"
  "total_e2e_latency (RecordFrameTxLatency bounds e s) = total_e2e_latency s"
  "e2e_latency_datapoints (RecordFrameTxLatency bounds e s) = e2e_latency_datapoints s"
  "num_frames_dropped_by_encoder (RecordFrameTxLatency bounds e s) = num_frames_dropped_by_encoder s"
  "num_frames_late (RecordFrameTxLatency bounds e s) = num_frames_late s"
  "recent_frame_infos (RecordFrameTxLatency bounds e s) = recent_frame_infos s"
  "packet_sent_times (RecordFrameTxLatency bounds e s) = packet_sent_times s"
  "start_time (RecordFrameTxLatency bounds e s) = start_time s"
  "last_response_received_time (RecordFrameTxLatency bounds e s) = last_response_received_time s"
  "first_event_time (RecordFrameTxLatency bounds e s) = first_event_time s"
  "last_event_time (RecordFrameTxLatency bounds e s) = last_event_time s"
  by (simp_all add: RecordFrameTxLatency_def Let_def split: option.splits)

lemma RecordE2ELatency_keeps [simp]:
  "event_media_type (RecordE2ELatency bounds e s) = event_media_type s"
  "frame_stats (RecordE2ELatency bounds e s) = frame_stats s"
  "packet_stats (RecordE2ELatency bounds e s) = packet_stats s"
  "total_network_latency (RecordE2ELatency bounds e s) = total_network_latency s"
  "network_latency_datapoints (RecordE2ELatency bounds e s) = network_latency_datapoints s"
  "num_frames_dropped_by_encoder (RecordE2ELatency bounds e s) = num_frames_dropped_by_encoder s"
  "num_frames_late (RecordE2ELatency bounds e s) = num_frames_late s"
  "recent_frame_infos (RecordE2ELatency bounds e s) = recent_frame_infos s"
  "packet_sent_times (RecordE2ELatency bounds e s) = packet_sent_times s"
  "start_time (RecordE2ELatency bounds e s) = start_time s"
  "last_response_received_time (RecordE2ELatency bounds e s) = last_response_received_time s"
  "first_event_time (RecordE2ELatency bounds e s) = first_event_time s"
  "last_event_time (RecordE2ELatency bounds e s) = last_event_time s"
  "histograms (RecordE2ELatency bounds e s) = histograms s"
  by (simp_all add: RecordE2ELatency_def Let_def split: option.splits)

lemma dispatch_frame_event_keeps [simp]:
  "event_media_type (dispatch_frame_event n bounds e s) = event_media_type s"
  "frame_stats (dispatch_frame_event n bounds e s) = frame_stats s"
  "packet_stats (dispatch_frame_event n bounds e s) = packet_stats s"
  "total_network_latency (dispatch_frame_event n bounds e s) = total_network_latency s"
  "network_latency_datapoints (dispatch_frame_event n bounds e s) = network_latency_datapoints s"
  "packet_sent_times (dispatch_frame_event n bounds e s) = packet_sent_times s"
  "start_time (dispatch_frame_event n bounds e s) = start_time s"
  "last_response_received_time (dispatch_frame_event n bounds e s) = last_response_received_time s"
  "first_event_time (dispatch_frame_event n bounds e s) = first_event_time s"
  "last_event_time (dispatch_frame_event n bounds e s) = last_event_time s"
  by (simp_all add: dispatch_frame_event_def Let_def)

lemma ErasePacketSentTime_keeps [simp]:
  "event_media_type (ErasePacketSentTime e s) = event_media_type s"
  "frame_stats (ErasePacketSentTime e s) = frame_stats s"
  "packet_stats (ErasePacketSentTime e s) = packet_stats s"
  "total_network_latency (ErasePacketSentTime e s) = total_network_latency s"
  "network_latency_datapoints (ErasePacketSentTime e s) = network_latency_datapoints s"
  "total_e2e_latency (ErasePacketSentTime e s) = total_e2e_latency s"
  "e2e_latency_datapoints (ErasePacketSentTime e s) = e2e_latency_datapoints s"
  "num_frames_dropped_by_encoder (ErasePacketSentTime e s) = num_frames_dropped_by_encoder s"
  "num_frames_late (ErasePacketSentTime e s) = num_frames_late s"
  "recent_frame_infos (ErasePacketSentTime e s) = recent_frame_infos s"
  "start_time (ErasePacketSentTime e s) = start_time s"
  "last_response_received_time (ErasePacketSentTime e s) = last_response_received_time s"
  "first_event_time (ErasePacketSentTime e s) = first_event_time s"
  "last_event_time (ErasePacketSentTime e s) = last_event_time s"
  "histograms (ErasePacketSentTime e s) = histograms s"
  by (simp_all add: ErasePacketSentTime_def Let_def)

lemma RecordNetworkLatency_keeps [simp]:
  "event_media_type (RecordNetworkLatency bounds e s) = event_media_type s"
  "frame_stats (RecordNetworkLatency bounds e s) = frame_stats s"
  "packet_stats (RecordNetworkLatency bounds e s) = packet_stats s"
  "total_e2e_latency (RecordNetworkLatency bounds e s) = total_e2e_latency s"
  "e2e_latency_datapoints (RecordNetworkLatency bounds e s) = e2e_latency_datapoints s"
  "num_frames_dropped_by_encoder (RecordNetworkLatency bounds e s) = num_frames_dropped_by_encoder s"
  "num_frames_late (RecordNetworkLatency bounds e s) = num_frames_late s"
  "recent_frame_infos (RecordNetworkLatency bounds e s) = recent_frame_infos s"
  "start_time (RecordNetworkLatency bounds e s) = start_time s"
  "last_response_received_time (RecordNetworkLatency bounds e s) = last_response_received_time s"
  "first_event_time (RecordNetworkLatency bounds e s) = first_event_time s"
  "last_event_time (RecordNetworkLatency bounds e s) = last_event_time s"
  by (simp_all add: RecordNetworkLatency_def Let_def split: option.splits prod.splits)

lemma OnReceiveFrameEvent_keeps [simp]:
  "event_media_type (OnReceiveFrameEvent n bounds e s) = event_media_type s"
  "packet_stats (OnReceiveFrameEvent n bounds e s) = packet_stats s"
  "total_network_latency (OnReceiveFrameEvent n bounds e s) = total_network_latency s"
  "network_latency_datapoints (OnReceiveFrameEvent n bounds e s) = network_latency_datapoints s"
  "packet_sent_times (OnReceiveFrameEvent n bounds e s) = packet_sent_times s"
  "start_time (OnReceiveFrameEvent n bounds e s) = start_time s"
  by (simp_all add: OnReceiveFrameEvent_def Let_def)

lemma OnReceivePacketEvent_keeps [simp]:
  "event_media_type (OnReceivePacketEvent bounds e s) = event_media_type s"
  "frame_stats (OnReceivePacketEvent bounds e s) = frame_stats s"
  "total_e2e_latency (OnReceivePacketEvent bounds e s) = total_e2e_latency s"
  "e2e_latency_datapoints (OnReceivePacketEvent bounds e s) = e2e_latency_datapoints s"
  "num_frames_dropped_by_encoder (OnReceivePacketEvent bounds e s) = num_frames_dropped_by_encoder s"
  "num_frames_late (OnReceivePacketEvent bounds e s) = num_frames_late s"
  "recent_frame_infos (OnReceivePacketEvent bounds e s) = recent_frame_infos s"
  "start_time (OnReceivePacketEvent bounds e s) = start_time s"
  by (simp_all add: OnReceivePacketEvent_def Let_def)
subsection \<open>The invariants hold in every run\<close>

lemma InitHistograms_value:
  "SimpleHistogram_ctor 0 kMaxLatencyBucketMs kBucketWidthMs =
     Some \<lparr>h_min = 0, h_max = 800, h_width = 20, buckets = replicate 42 0\<rparr>"
  by (simp add: kMaxLatencyBucketMs_def kBucketWidthMs_def ctor_0_800_20)

lemma Reset_histogram_Add [simp]: "Reset_histogram (Add x h) = Reset_histogram h"
  by (simp add: Reset_histogram_def Add_def Let_def)

lemma Reset_histogram_idem [simp]: "Reset_histogram (Reset_histogram h) = Reset_histogram h"
  by (simp add: Reset_histogram_def)

lemma histograms_ok_Init: "histograms_ok InitHistograms"
  by (simp add: histograms_ok_def InitHistograms_def InitHistograms_value Reset_histogram_def)

lemma histograms_ok_Add:
  assumes "histograms_ok hs"
  shows "histograms_ok (histograms_Add stat x hs)"
  unfolding histograms_ok_def
proof
  fix k
  have "map_option Reset_histogram (hs k) = InitHistograms k"
    using assms by (simp add: histograms_ok_def)
  then show "map_option Reset_histogram (histograms_Add stat x hs k) = InitHistograms k"
    by (cases "hs stat") (auto simp: histograms_Add_def)
qed

lemma histograms_ok_Reset:
  "histograms_ok hs \<Longrightarrow> (\<lambda>stat. map_option Reset_histogram (hs stat)) = InitHistograms"
  by (auto simp: histograms_ok_def)

lemma histograms_ok_shape:
  assumes "histograms_ok hs" and "hs stat = Some h"
  shows "h_min h = 0 \<and> h_max h = 800 \<and> h_width h = 20 \<and> length (buckets h) = 42"
proof -
  from assms have "InitHistograms stat = Some (Reset_histogram h)"
    by (auto simp: histograms_ok_def dest: spec [of _ stat])
  then have "Reset_histogram h = \<lparr>h_min = 0, h_max = 800, h_width = 20, buckets = replicate 42 0\<rparr>"
    by (auto simp: InitHistograms_def InitHistograms_value split: if_splits)
  then have "h_min (Reset_histogram h) = 0" "h_max (Reset_histogram h) = 800"
    "h_width (Reset_histogram h) = 20" "length (buckets (Reset_histogram h)) = 42"
    by simp_all
  then show ?thesis by (simp add: Reset_histogram_def)
qed

lemma histograms_ok_defined:
  assumes "histograms_ok hs"
    and "stat \<in> {CAPTURE_LATENCY_MS_HISTO, ENCODE_LATENCY_MS_HISTO, PACKET_LATENCY_MS_HISTO,
                  FRAME_LATENCY_MS_HISTO, PLAYOUT_DELAY_MS_HISTO}"
  shows "\<exists>h. hs stat = Some h"
proof -
  from assms(2) have "InitHistograms stat \<noteq> None"
    by (auto simp: InitHistograms_def InitHistograms_value)
  with assms(1) show ?thesis
    by (auto simp: histograms_ok_def dest!: spec [of _ stat])
qed

lemma counters_ok_count: "counters_ok stats \<Longrightarrow> counters_ok (count_packet_event e stats)"
  by (auto simp: counters_ok_def count_packet_event_def split: option.splits)

lemma map_insert_not_Nil [simp]: "map_insert k v ps \<noteq> []"
  by (cases ps) (auto split: if_splits)

lemma recent_MaybeInsertFrameInfo:
  "recent_frame_infos (MaybeInsertFrameInfo n rtp info s) =
     (if length (recent_frame_infos s) = n \<and>
         (case recent_frame_infos s of [] \<Rightarrow> False | (k, _) # _ \<Rightarrow> rtp < k)
      then recent_frame_infos s
      else if n \<le> length (map_insert rtp info (recent_frame_infos s))
      then tl (map_insert rtp info (recent_frame_infos s))
      else map_insert rtp info (recent_frame_infos s))"
proof (cases "map_insert rtp info (recent_frame_infos s)")
  case Nil
  then show ?thesis by simp
next
  case (Cons p ps)
  then show ?thesis
    by (cases p) (simp add: MaybeInsertFrameInfo_def Let_def)
qed

lemma sorted_MaybeInsertFrameInfo:
  "sorted_wrt (<) (map fst (recent_frame_infos s)) \<Longrightarrow>
     sorted_wrt (<) (map fst (recent_frame_infos (MaybeInsertFrameInfo n rtp info s)))"
  unfolding recent_MaybeInsertFrameInfo
  by (simp add: sorted_map_insert sorted_tl)

lemma histograms_dispatch:
  "histograms_ok (histograms s) \<Longrightarrow>
     histograms_ok (histograms (dispatch_frame_event n bounds e s))"
  by (auto simp: dispatch_frame_event_def Let_def RecordFrameCaptureTime_def
        RecordCaptureLatency_def RecordEncodeLatency_def RecordFrameTxLatency_def
        histograms_ok_Add split: option.splits)

lemma sorted_dispatch:
  "sorted_wrt (<) (map fst (recent_frame_infos s)) \<Longrightarrow>
     sorted_wrt (<) (map fst (recent_frame_infos (dispatch_frame_event n bounds e s)))"
  by (auto simp: dispatch_frame_event_def Let_def RecordFrameCaptureTime_def
        RecordCaptureLatency_def RecordEncodeLatency_def sorted_MaybeInsertFrameInfo
        map_fst_map_modify split: option.splits)

lemma inv_OnReceiveFrameEvent:
  "subscriber_inv media s \<Longrightarrow> subscriber_inv media (OnReceiveFrameEvent n bounds e s)"
  unfolding subscriber_inv_def
  by (simp, simp add: OnReceiveFrameEvent_def Let_def histograms_dispatch sorted_dispatch)

lemma histograms_RecordNetworkLatency:
  "histograms_ok (histograms s) \<Longrightarrow>
     histograms_ok (histograms (RecordNetworkLatency bounds e s))"
  by (auto simp: RecordNetworkLatency_def Let_def histograms_ok_Add split: option.splits)

lemma sorted_RecordNetworkLatency:
  "sorted_wrt (<) (map fst (packet_sent_times s)) \<Longrightarrow>
     sorted_wrt (<) (map fst (packet_sent_times (RecordNetworkLatency bounds e s)))"
  by (auto simp: RecordNetworkLatency_def Let_def sorted_map_insert sorted_map_erase sorted_tl
        split: option.splits)

lemma inv_OnReceivePacketEvent:
  "subscriber_inv media s \<Longrightarrow> subscriber_inv media (OnReceivePacketEvent bounds e s)"
  unfolding subscriber_inv_def
  by (simp, simp add: OnReceivePacketEvent_def Let_def counters_ok_count
        histograms_RecordNetworkLatency sorted_RecordNetworkLatency
        ErasePacketSentTime_def sorted_map_erase)

lemma Reset_eq_ctor:
  "histograms_ok (histograms s) \<Longrightarrow>
     Reset now s = StatsEventSubscriber_ctor (event_media_type s) now"
  by (simp add: Reset_def StatsEventSubscriber_ctor_def histograms_ok_Reset)

lemma inv_ctor: "subscriber_inv media (StatsEventSubscriber_ctor media now)"
  by (simp add: subscriber_inv_def StatsEventSubscriber_ctor_def counters_ok_def
        histograms_ok_Init)

lemma inv_Reset: "subscriber_inv media s \<Longrightarrow> subscriber_inv media (Reset now s)"
  using inv_ctor [of media now] by (simp add: Reset_eq_ctor subscriber_inv_def)

lemma inv_step: "subscriber_inv media s \<Longrightarrow> subscriber_inv media (step n s x)"
  by (cases x) (simp_all add: inv_OnReceiveFrameEvent inv_OnReceivePacketEvent inv_Reset)

lemma inv_run: "subscriber_inv media s \<Longrightarrow> subscriber_inv media (run n s inputs)"
  by (induction inputs arbitrary: s) (simp_all add: run_def inv_step)

lemma inv_reachable:
  "subscriber_inv media (run n (StatsEventSubscriber_ctor media now) inputs)"
  by (rule inv_run [OF inv_ctor])

lemma run_append: "run n s (xs @ ys) = run n (run n s xs) ys"
  by (simp add: run_def)

subsection \<open>The exported statistics\<close>

lemma stats_insert_other [simp]: "k' \<noteq> k \<Longrightarrow> stats_insert k v m k' = m k'"
  by (simp add: stats_insert_def split: option.splits)

lemma stats_insert_fresh: "m k = None \<Longrightarrow> stats_insert k v m = m(k \<mapsto> v)"
  by (simp add: stats_insert_def)

lemma Populate_other [simp]:
  "k' \<noteq> stat \<Longrightarrow> PopulateFpsStat end_time event stat s m k' = m k'"
  "k' \<noteq> stat \<Longrightarrow> PopulateFrameCountStat event stat s m k' = m k'"
  "k' \<noteq> stat \<Longrightarrow> PopulatePacketCountStat event stat s m k' = m k'"
  "k' \<noteq> AVG_PLAYOUT_DELAY_MS \<Longrightarrow> PopulatePlayoutDelayStat s m k' = m k'"
  "k' \<noteq> ENCODE_KBPS \<Longrightarrow> PopulateFrameBitrateStat end_time s m k' = m k'"
  "k' \<noteq> stat \<Longrightarrow> PopulatePacketBitrateStat end_time event stat s m k' = m k'"
  by (simp_all add: PopulateFpsStat_def PopulateFrameCountStat_def PopulatePacketCountStat_def
        PopulatePlayoutDelayStat_def PopulateFrameBitrateStat_def PopulatePacketBitrateStat_def
        Let_def split: option.splits)

lemma GetStatsInternal_loss:
  "GetStatsInternal end_time unix_epoch s PACKET_LOSS_FRACTION =
     map_option (\<lambda>(sent_count, retransmitted_count).
         of_nat retransmitted_count / of_nat (sent_count + retransmitted_count))
       (packet_loss_counts s)"
  by (simp add: GetStatsInternal_def Let_def PopulatePacketLossPercentageStat_def
        stats_insert_def split: option.splits)

lemma GetStatsInternal_ctor:
  "GetStatsInternal end_time unix_epoch (StatsEventSubscriber_ctor media now) =
     [NUM_FRAMES_DROPPED_BY_ENCODER \<mapsto> 0, NUM_FRAMES_LATE \<mapsto> 0]"
  by (simp add: GetStatsInternal_def Let_def StatsEventSubscriber_ctor_def
        PopulateFpsStat_def PopulateFrameCountStat_def PopulatePacketCountStat_def
        PopulatePlayoutDelayStat_def PopulateFrameBitrateStat_def PopulatePacketBitrateStat_def
        PopulatePacketLossPercentageStat_def packet_loss_counts_def is_null_def
        stats_insert_fresh)

lemma packet_stats_OnReceivePacketEvent:
  "packet_stats (OnReceivePacketEvent bounds e s) =
     (if p_media_type e \<noteq> event_media_type s then packet_stats s
      else count_packet_event e (packet_stats s))"
  by (simp add: OnReceivePacketEvent_def Let_def)

lemma fresh_histogram_counts:
  "snd ` set (GetHistogram \<lparr>h_min = 0, h_max = 800, h_width = 20, buckets = replicate 42 0\<rparr>)
     = {0}"
  by (auto simp: GetHistogram_def Let_def image_iff)

text \<open>
  Claim C9. In every run, the snapshot holds a packet-loss fraction exactly when
  \<open>packet_stats_\<close> has an entry for \<open>PACKET_SENT_TO_NETWORK\<close>; the function returns before
  the division otherwise. With an entry, the sent count is at least 1, so the divisor
  \<open>sent_count + retransmitted_count\<close> is positive, and the fraction is
  \<open>retransmitted_count / (sent_count + retransmitted_count)\<close>, between 0 and 1.
\<close>

theorem packet_loss_fraction_gated:
  fixes n :: nat and media :: EventMediaType and created :: TimeTicks and inputs :: "Input list"
  defines "s \<equiv> run n (StatsEventSubscriber_ctor media created) inputs"
  shows "GetStatsInternal end_time unix_epoch s PACKET_LOSS_FRACTION =
           map_option (\<lambda>(sent_count, retransmitted_count).
               of_nat retransmitted_count / of_nat (sent_count + retransmitted_count))
             (packet_loss_counts s)
    \<and> (packet_loss_counts s = None) = (packet_stats s PACKET_SENT_TO_NETWORK = None)
    \<and> (GetStatsInternal end_time unix_epoch s PACKET_LOSS_FRACTION = None)
        = (packet_stats s PACKET_SENT_TO_NETWORK = None)
    \<and> (packet_loss_counts s = Some (sent_count, retransmitted_count) \<longrightarrow>
          map_option event_counter (packet_stats s PACKET_SENT_TO_NETWORK) = Some sent_count
          \<and> retransmitted_count =
              (case packet_stats s PACKET_RETRANSMITTED of
                 None \<Rightarrow> 0 | Some st \<Rightarrow> event_counter st)
          \<and> 1 \<le> sent_count \<and> 0 < sent_count + retransmitted_count)
    \<and> (GetStatsInternal end_time unix_epoch s PACKET_LOSS_FRACTION = Some fraction \<longrightarrow>
          0 \<le> fraction \<and> fraction \<le> 1)"
proof -
  have inv: "subscriber_inv media s"
    unfolding s_def by (rule inv_reachable)
  then have cnt: "counters_ok (packet_stats s)"
    by (simp add: subscriber_inv_def)
  note loss = GetStatsInternal_loss [of end_time unix_epoch s]
  have none: "(packet_loss_counts s = None) = (packet_stats s PACKET_SENT_TO_NETWORK = None)"
    by (simp add: packet_loss_counts_def Let_def split: option.splits)
  have none': "(GetStatsInternal end_time unix_epoch s PACKET_LOSS_FRACTION = None)
        = (packet_stats s PACKET_SENT_TO_NETWORK = None)"
    unfolding loss using none by simp
  have some: "map_option event_counter (packet_stats s PACKET_SENT_TO_NETWORK) = Some sent_count
          \<and> retransmitted_count =
              (case packet_stats s PACKET_RETRANSMITTED of
                 None \<Rightarrow> 0 | Some st \<Rightarrow> event_counter st)
          \<and> 1 \<le> sent_count \<and> 0 < sent_count + retransmitted_count"
    if "packet_loss_counts s = Some (sent_count, retransmitted_count)"
  proof -
    from that obtain sent where sent: "packet_stats s PACKET_SENT_TO_NETWORK = Some sent"
      and sc: "sent_count = event_counter sent"
      and rc: "retransmitted_count =
              (case packet_stats s PACKET_RETRANSMITTED of
                 None \<Rightarrow> 0 | Some st \<Rightarrow> event_counter st)"
      by (auto simp: packet_loss_counts_def Let_def split: option.splits)
    from cnt sent have "1 \<le> event_counter sent"
      by (auto simp: counters_ok_def)
    with sent sc rc show ?thesis by simp
  qed
  have bounds: "0 \<le> fraction \<and> fraction \<le> 1"
    if "GetStatsInternal end_time unix_epoch s PACKET_LOSS_FRACTION = Some fraction"
  proof -
    from that obtain a b where ab: "packet_loss_counts s = Some (a, b)"
      and fr: "fraction = of_nat b / of_nat (a + b)"
      unfolding loss by auto
    have "(of_nat b :: rat) \<le> of_nat (a + b)" by simp
    moreover have "(0 :: rat) \<le> of_nat (a + b)" by simp
    ultimately have "(of_nat b :: rat) / of_nat (a + b) \<le> 1"
      by (metis divide_le_eq_1 divide_eq_0_iff le_less zero_le_one of_nat_0_le_iff)
    then show ?thesis unfolding fr by simp
  qed
  from loss none none' some bounds show ?thesis by blast
qed

theorem packet_loss_fraction_gated_witness:
  "GetStatsInternal 0 0
     (run 100 (StatsEventSubscriber_ctor VIDEO_EVENT 0)
        [Packet None \<lparr>p_timestamp = 1, p_type = PACKET_SENT_TO_NETWORK,
                       p_media_type = VIDEO_EVENT, p_rtp_timestamp = 7, p_packet_id = 0,
                       p_size = 10\<rparr>,
         Packet None \<lparr>p_timestamp = 2, p_type = PACKET_RETRANSMITTED,
                       p_media_type = VIDEO_EVENT, p_rtp_timestamp = 7, p_packet_id = 0,
                       p_size = 10\<rparr>])
     PACKET_LOSS_FRACTION = Some (1 / 2)"
  using packet_loss_fraction_gated [where end_time = 0 and unix_epoch = 0 and n = 100
        and media = VIDEO_EVENT and created = 0 and sent_count = 1 and retransmitted_count = 1
        and fraction = "1 / 2" and inputs =
        "[Packet None \<lparr>p_timestamp = 1, p_type = PACKET_SENT_TO_NETWORK,
                       p_media_type = VIDEO_EVENT, p_rtp_timestamp = 7, p_packet_id = 0,
                       p_size = 10\<rparr>,
         Packet None \<lparr>p_timestamp = 2, p_type = PACKET_RETRANSMITTED,
                       p_media_type = VIDEO_EVENT, p_rtp_timestamp = 7, p_packet_id = 0,
                       p_size = 10\<rparr>]"]
  by (simp add: run_def packet_loss_counts_def packet_stats_OnReceivePacketEvent
        count_packet_event_def StatsEventSubscriber_ctor_def)

text \<open>
  Claim C8. In every run, \<open>Reset\<close> leaves the state of a subscriber constructed at the
  same reading of the clock for the same media type. A snapshot taken then holds the two
  counts of dropped and late frames, both 0, and no other statistic; the per-kind
  counters are empty; every histogram keeps its minimum, maximum, width and number of
  buckets, and all its counts are 0, also as exported. Hence the same inputs after the
  \<open>Reset\<close> and after the construction give the same snapshot.
\<close>

theorem Reset_like_fresh:
  fixes n :: nat and media :: EventMediaType and created :: TimeTicks and inputs :: "Input list"
  defines "s \<equiv> run n (StatsEventSubscriber_ctor media created) inputs"
  shows "Reset now s = StatsEventSubscriber_ctor media now
    \<and> GetStatsInternal end_time unix_epoch (Reset now s) =
        [NUM_FRAMES_DROPPED_BY_ENCODER \<mapsto> 0, NUM_FRAMES_LATE \<mapsto> 0]
    \<and> frame_stats (Reset now s) = Map.empty
    \<and> packet_stats (Reset now s) = Map.empty
    \<and> map_option (\<lambda>h. (h_min h, h_max h, h_width h, length (buckets h)))
          (histograms (Reset now s) stat) =
        map_option (\<lambda>h. (h_min h, h_max h, h_width h, length (buckets h)))
          (histograms s stat)
    \<and> map_option buckets (histograms (Reset now s) stat) =
        map_option (\<lambda>h. replicate (length (buckets h)) 0) (histograms s stat)
    \<and> map_option (\<lambda>exported. snd ` set exported)
          (snd (snd (GetStats end_time unix_epoch (Reset now s))) stat) =
        map_option (\<lambda>h. {0}) (histograms s stat)
    \<and> GetStats end_time unix_epoch (run n (Reset now s) later) =
        GetStats end_time unix_epoch (run n (StatsEventSubscriber_ctor media now) later)"
proof -
  have inv: "subscriber_inv media s"
    unfolding s_def by (rule inv_reachable)
  then have media: "event_media_type s = media" and hs: "histograms_ok (histograms s)"
    by (simp_all add: subscriber_inv_def)
  have eq: "Reset now s = StatsEventSubscriber_ctor media now"
    using Reset_eq_ctor [OF hs] media by simp
  have snap: "GetStatsInternal end_time unix_epoch (Reset now s) =
        [NUM_FRAMES_DROPPED_BY_ENCODER \<mapsto> 0, NUM_FRAMES_LATE \<mapsto> 0]"
    unfolding eq by (rule GetStatsInternal_ctor)
  have fs: "frame_stats (Reset now s) = Map.empty" and ps: "packet_stats (Reset now s) = Map.empty"
    by (simp_all add: Reset_def)
  have shape: "map_option (\<lambda>h. (h_min h, h_max h, h_width h, length (buckets h)))
          (histograms (Reset now s) stat) =
        map_option (\<lambda>h. (h_min h, h_max h, h_width h, length (buckets h)))
          (histograms s stat)"
    by (cases "histograms s stat") (simp_all add: Reset_def Reset_histogram_def)
  have zero: "map_option buckets (histograms (Reset now s) stat) =
        map_option (\<lambda>h. replicate (length (buckets h)) 0) (histograms s stat)"
    by (cases "histograms s stat") (simp_all add: Reset_def Reset_histogram_def)
  have exported: "map_option (\<lambda>exported. snd ` set exported)
          (snd (snd (GetStats end_time unix_epoch (Reset now s))) stat) =
        map_option (\<lambda>h. {0}) (histograms s stat)"
  proof (cases "histograms s stat")
    case None
    then show ?thesis by (simp add: GetStats_def Reset_def)
  next
    case (Some h)
    have "Reset_histogram h =
        \<lparr>h_min = 0, h_max = 800, h_width = 20, buckets = replicate 42 0\<rparr>"
      using histograms_ok_shape [OF hs Some] by (simp add: Reset_histogram_def)
    then show ?thesis
      using Some fresh_histogram_counts by (simp add: GetStats_def Reset_def)
  qed
  have same: "GetStats end_time unix_epoch (run n (Reset now s) later) =
        GetStats end_time unix_epoch (run n (StatsEventSubscriber_ctor media now) later)"
    unfolding eq ..
  from eq snap fs ps shape zero exported same show ?thesis by blast
qed

subsection \<open>Network latency pairing\<close>

lemma int64_of_double_ms: "int64_of_double (InMillisecondsF d) = int64_div d 1000"
proof (cases "0 \<le> d")
  case True
  have "\<lfloor>(of_int d :: rat) / 1000\<rfloor> = d div 1000"
    using floor_divide_of_int_eq [of d 1000, where ?'a = rat] by simp
  with True show ?thesis
    by (cases "d = 0") (simp_all add: int64_of_double_def InMillisecondsF_def int64_div_def)
next
  case False
  then have neg: "d < 0" by simp
  have "\<lceil>(of_int d :: rat) / 1000\<rceil> = - \<lfloor>(of_int (- d) :: rat) / 1000\<rfloor>"
    by (simp add: ceiling_def)
  also have "\<dots> = - ((- d) div 1000)"
    using floor_divide_of_int_eq [of "- d" 1000, where ?'a = rat] by simp
  finally show ?thesis
    using neg by (simp add: int64_of_double_def InMillisecondsF_def int64_div_def)
qed

lemma histograms_Add_ms:
  "histograms_Add stat (InMillisecondsF d) hs stat' =
     (if stat' = stat then map_option (Add (int64_div d 1000)) (hs stat) else hs stat')"
  by (cases "hs stat") (simp_all add: histograms_Add_def int64_of_double_ms)

lemma map_of_tl_sorted:
  "sorted_wrt (<) (map fst ps) \<Longrightarrow> ps \<noteq> [] \<Longrightarrow> k \<noteq> fst (hd ps) \<Longrightarrow>
     map_of (tl ps) k = map_of ps (k :: 'k :: linorder)"
  by (cases ps) auto

lemma hd_map_insert:
  "ps \<noteq> [] \<Longrightarrow> fst (hd ps) < k \<Longrightarrow> hd (map_insert k v ps) = hd ps"
  by (cases ps) auto

text \<open>The four members that \<open>RecordNetworkLatency\<close> works on, as \<open>OnReceivePacketEvent\<close>
  leaves them.\<close>

lemma OnReceivePacketEvent_no_credit:
  assumes "p_type e = PACKET_SENT_TO_NETWORK"
    and "map_option snd (map_of (packet_sent_times s) (p_rtp_timestamp e, p_packet_id e))
           \<noteq> Some PACKET_RECEIVED"
  shows "total_network_latency (OnReceivePacketEvent bounds e s) = total_network_latency s"
    and "network_latency_datapoints (OnReceivePacketEvent bounds e s) =
           network_latency_datapoints s"
    and "histograms (OnReceivePacketEvent bounds e s) = histograms s"
  using assms
  by (auto simp: OnReceivePacketEvent_def RecordNetworkLatency_def Let_def
        split: option.splits)

lemma OnReceivePacketEvent_absent:
  assumes "p_type e = PACKET_SENT_TO_NETWORK \<or> p_type e = PACKET_RECEIVED"
    and "map_of (packet_sent_times s) (p_rtp_timestamp e, p_packet_id e) = None"
  shows "total_network_latency (OnReceivePacketEvent bounds e s) = total_network_latency s"
    and "network_latency_datapoints (OnReceivePacketEvent bounds e s) =
           network_latency_datapoints s"
    and "histograms (OnReceivePacketEvent bounds e s) = histograms s"
    and "p_media_type e = event_media_type s \<Longrightarrow> bounds = Some (lower, upper) \<Longrightarrow>
           packet_sent_times (OnReceivePacketEvent bounds e s) =
             (let times = map_insert (p_rtp_timestamp e, p_packet_id e)
                            (p_timestamp e, p_type e) (packet_sent_times s)
              in if length times > kMaxPacketEventTimeMapSize then tl times else times)"
  using assms
  by (auto simp: OnReceivePacketEvent_def RecordNetworkLatency_def Let_def IsReceiverEvent_def
        GetReceiverOffset_def split: option.splits)

lemma OnReceivePacketEvent_stored:
  assumes media: "p_media_type e = event_media_type s"
    and kind: "p_type e = PACKET_SENT_TO_NETWORK \<or> p_type e = PACKET_RECEIVED"
    and off: "bounds = Some (lower, upper)"
    and sorted: "sorted_wrt (<) (map fst (packet_sent_times s))"
    and absent: "map_of (packet_sent_times s) (p_rtp_timestamp e, p_packet_id e) = None"
    and room: "length (packet_sent_times s) < kMaxPacketEventTimeMapSize
               \<or> (packet_sent_times s \<noteq> [] \<and>
                  fst (hd (packet_sent_times s)) < (p_rtp_timestamp e, p_packet_id e))"
  shows "map_of (packet_sent_times (OnReceivePacketEvent bounds e s))
           (p_rtp_timestamp e, p_packet_id e) = Some (p_timestamp e, p_type e)"
proof -
  let ?key = "(p_rtp_timestamp e, p_packet_id e)"
  let ?times = "map_insert ?key (p_timestamp e, p_type e) (packet_sent_times s)"
  have pst: "packet_sent_times (OnReceivePacketEvent bounds e s) =
      (if length ?times > kMaxPacketEventTimeMapSize then tl ?times else ?times)"
    using OnReceivePacketEvent_absent(4) [OF kind absent media off] by (simp add: Let_def)
  have ins: "map_of ?times ?key = Some (p_timestamp e, p_type e)"
    by (simp add: map_of_map_insert_absent [OF absent])
  show ?thesis
  proof (cases "length ?times > kMaxPacketEventTimeMapSize")
    case False
    with pst ins show ?thesis by simp
  next
    case True
    then have "\<not> length (packet_sent_times s) < kMaxPacketEventTimeMapSize"
      by (simp add: length_map_insert_absent [OF absent])
    with room have ne: "packet_sent_times s \<noteq> []"
      and less: "fst (hd (packet_sent_times s)) < ?key" by simp_all
    have "fst (hd ?times) = fst (hd (packet_sent_times s))"
      by (simp add: hd_map_insert [OF ne less])
    with less have "?key \<noteq> fst (hd ?times)" by simp
    then have "map_of (tl ?times) ?key = map_of ?times ?key"
      using map_of_tl_sorted [OF sorted_map_insert [OF sorted]] by simp
    with pst ins True show ?thesis by simp
  qed
qed

lemma OnReceivePacketEvent_evicted_at_once:
  assumes media: "p_media_type e = event_media_type s"
    and kind: "p_type e = PACKET_SENT_TO_NETWORK \<or> p_type e = PACKET_RECEIVED"
    and off: "bounds = Some (lower, upper)"
    and full: "length (packet_sent_times s) = kMaxPacketEventTimeMapSize"
    and least: "packet_sent_times s = (k, v) # rest"
      "(p_rtp_timestamp e, p_packet_id e) < k"
    and absent: "map_of (packet_sent_times s) (p_rtp_timestamp e, p_packet_id e) = None"
  shows "packet_sent_times (OnReceivePacketEvent bounds e s) = packet_sent_times s"
  using OnReceivePacketEvent_absent(4) [OF kind absent media off] full least
  by (simp add: Let_def)

lemma OnReceivePacketEvent_paired:
  assumes media: "p_media_type e = event_media_type s"
    and off: "bounds = Some (lower, upper)"
    and sorted: "sorted_wrt (<) (map fst (packet_sent_times s))"
    and stored: "map_of (packet_sent_times s) (p_rtp_timestamp e, p_packet_id e)
                   = Some (recorded_time, recorded_type)"
    and compl: "(recorded_type = PACKET_SENT_TO_NETWORK \<and> p_type e = PACKET_RECEIVED)
                \<or> (recorded_type = PACKET_RECEIVED \<and> p_type e = PACKET_SENT_TO_NETWORK)"
    and lat: "latency =
                (if p_type e = PACKET_RECEIVED
                 then (p_timestamp e - int64_div (lower + upper) 2) - recorded_time
                 else (recorded_time - int64_div (lower + upper) 2) - p_timestamp e)"
  shows "total_network_latency (OnReceivePacketEvent bounds e s) =
           total_network_latency s + latency"
    and "network_latency_datapoints (OnReceivePacketEvent bounds e s) =
           network_latency_datapoints s + 1"
    and "histograms (OnReceivePacketEvent bounds e s) =
           histograms_Add PACKET_LATENCY_MS_HISTO (InMillisecondsF latency) (histograms s)"
    and "packet_sent_times (OnReceivePacketEvent bounds e s) =
           map_erase (p_rtp_timestamp e, p_packet_id e) (packet_sent_times s)"
  using assms
  by (auto simp: OnReceivePacketEvent_def RecordNetworkLatency_def Let_def
        GetReceiverOffset_def)

lemma OnReceivePacketEvent_unpaired:
  assumes kind: "p_type e = PACKET_SENT_TO_NETWORK \<or> p_type e = PACKET_RECEIVED"
    and stored: "map_of (packet_sent_times s) (p_rtp_timestamp e, p_packet_id e)
                   = Some (recorded_time, recorded_type)"
    and compl: "\<not> ((recorded_type = PACKET_SENT_TO_NETWORK \<and> p_type e = PACKET_RECEIVED)
                \<or> (recorded_type = PACKET_RECEIVED \<and> p_type e = PACKET_SENT_TO_NETWORK))"
  shows "total_network_latency (OnReceivePacketEvent bounds e s) = total_network_latency s"
    and "network_latency_datapoints (OnReceivePacketEvent bounds e s) =
           network_latency_datapoints s"
    and "histograms (OnReceivePacketEvent bounds e s) = histograms s"
    and "packet_sent_times (OnReceivePacketEvent bounds e s) = packet_sent_times s"
  using assms
  by (auto simp: OnReceivePacketEvent_def RecordNetworkLatency_def Let_def
        split: option.splits)

lemma OnReceivePacketEvent_retransmitted:
  assumes "p_type e = PACKET_RETRANSMITTED"
  shows "total_network_latency (OnReceivePacketEvent bounds e s) = total_network_latency s"
    and "network_latency_datapoints (OnReceivePacketEvent bounds e s) =
           network_latency_datapoints s"
    and "histograms (OnReceivePacketEvent bounds e s) = histograms s"
    and "p_media_type e = event_media_type s \<Longrightarrow>
           packet_sent_times (OnReceivePacketEvent bounds e s) =
             map_erase (p_rtp_timestamp e, p_packet_id e) (packet_sent_times s)"
  using assms
  by (auto simp: OnReceivePacketEvent_def ErasePacketSentTime_def Let_def IsReceiverEvent_def)

lemma bounded_insert:
  assumes "length ps \<le> K"
  shows "length (if K < length (map_insert k v ps) then tl (map_insert k v ps)
                 else map_insert k v ps) \<le> K"
  using length_map_insert_le [of k v ps] assms by auto

lemma packet_cache_bounded_RecordNetworkLatency:
  assumes le: "length (packet_sent_times s) \<le> kMaxPacketEventTimeMapSize"
  shows "length (packet_sent_times (RecordNetworkLatency bounds e s))
           \<le> kMaxPacketEventTimeMapSize"
proof -
  have "length (map_erase k (packet_sent_times s)) \<le> kMaxPacketEventTimeMapSize" for k
    using length_map_erase_le [of k "packet_sent_times s"] le by simp
  then show ?thesis
    using le bounded_insert [OF le]
    by (simp add: RecordNetworkLatency_def Let_def split: option.splits prod.splits
          split del: if_split)
qed

lemma packet_cache_bounded_step:
  assumes le: "length (packet_sent_times s) \<le> kMaxPacketEventTimeMapSize"
  shows "length (packet_sent_times (step n s x)) \<le> kMaxPacketEventTimeMapSize"
proof (cases x)
  case (Frame bounds e)
  with le show ?thesis by simp
next
  case (Packet bounds e)
  have "length (map_erase k (packet_sent_times s)) \<le> kMaxPacketEventTimeMapSize" for k
    using length_map_erase_le [of k "packet_sent_times s"] le by simp
  then show ?thesis
    using le Packet
    by (simp add: OnReceivePacketEvent_def ErasePacketSentTime_def Let_def
          packet_cache_bounded_RecordNetworkLatency)
next
  case (DoReset now)
  then show ?thesis by (simp add: Reset_def)
qed

lemma packet_cache_bounded:
  "length (packet_sent_times (run n (StatsEventSubscriber_ctor media created) inputs))
     \<le> kMaxPacketEventTimeMapSize"
proof -
  have "length (packet_sent_times s) \<le> kMaxPacketEventTimeMapSize \<Longrightarrow>
      length (packet_sent_times (run n s inputs)) \<le> kMaxPacketEventTimeMapSize" for s
    by (induction inputs arbitrary: s) (simp_all add: run_def packet_cache_bounded_step)
  then show ?thesis by (simp add: StatsEventSubscriber_ctor_def)
qed

lemma length_map_erase_present:
  "map_of ps k = Some v \<Longrightarrow> length (map_erase k ps) < length ps"
  by (induction ps) (auto split: if_splits)

lemma map_insert_append:
  "\<forall>p \<in> set ps. fst p < k \<Longrightarrow> map_insert k v ps = ps @ [(k, v)]"
  by (induction ps) auto

lemma rtp_less: "i < j \<Longrightarrow> j \<le> 1000 \<Longrightarrow> (of_nat i :: 32 word) < of_nat j"
  by (simp add: word_less_nat_alt unat_of_nat)

lemma sent_packets_Suc:
  "sent_packets (Suc k) = sent_packets k @ [Packet (Some (0, 0)) (sent_packet (Suc k))]"
  by (simp add: sent_packets_def)

lemma sent_packets_fill:
  "k \<le> 1000 \<Longrightarrow>
     packet_sent_times (run n (StatsEventSubscriber_ctor VIDEO_EVENT 0) (sent_packets k)) =
       map (\<lambda>i. ((of_nat i, 0), (1, PACKET_SENT_TO_NETWORK))) [1 ..< Suc k]
     \<and> network_latency_datapoints
         (run n (StatsEventSubscriber_ctor VIDEO_EVENT 0) (sent_packets k)) = 0
     \<and> total_network_latency
         (run n (StatsEventSubscriber_ctor VIDEO_EVENT 0) (sent_packets k)) = 0"
proof (induction k)
  case 0
  then show ?case
    by (simp add: sent_packets_def run_def StatsEventSubscriber_ctor_def)
next
  case (Suc k)
  let ?s = "run n (StatsEventSubscriber_ctor VIDEO_EVENT 0) (sent_packets k)"
  let ?e = "sent_packet (Suc k)"
  let ?g = "\<lambda>i. ((of_nat i :: 32 word, 0 :: 16 word), (1 :: int, PACKET_SENT_TO_NETWORK))"
  from Suc have k: "k < 1000" and pst: "packet_sent_times ?s = map ?g [1 ..< Suc k]"
    and zero: "network_latency_datapoints ?s = 0" "total_network_latency ?s = 0"
    by simp_all
  have media: "p_media_type ?e = event_media_type ?s"
    using inv_reachable [of VIDEO_EVENT n 0 "sent_packets k"]
    by (simp add: subscriber_inv_def sent_packet_def)
  have kind: "p_type ?e = PACKET_SENT_TO_NETWORK \<or> p_type ?e = PACKET_RECEIVED"
    by (simp add: sent_packet_def)
  have below: "\<forall>p \<in> set (packet_sent_times ?s). fst p < (p_rtp_timestamp ?e, p_packet_id ?e)"
    using k unfolding pst by (auto simp: sent_packet_def rtp_less simp del: of_nat_Suc)
  then have absent: "map_of (packet_sent_times ?s) (p_rtp_timestamp ?e, p_packet_id ?e) = None"
    by (auto simp: map_of_eq_None_iff)
  have run: "run n (StatsEventSubscriber_ctor VIDEO_EVENT 0) (sent_packets (Suc k)) =
      OnReceivePacketEvent (Some (0, 0)) ?e ?s"
    by (simp add: sent_packets_Suc run_def)
  have "packet_sent_times (OnReceivePacketEvent (Some (0, 0)) ?e ?s) =
      map ?g [1 ..< Suc k] @ [((of_nat (Suc k), 0), (1, PACKET_SENT_TO_NETWORK))]"
    using OnReceivePacketEvent_absent(4) [OF kind absent media refl] k
    by (simp add: map_insert_append [OF below] Let_def kMaxPacketEventTimeMapSize_def)
       (simp add: pst sent_packet_def)
  then have "packet_sent_times (OnReceivePacketEvent (Some (0, 0)) ?e ?s) =
      map ?g [1 ..< Suc (Suc k)]"
    by simp
  then show ?case
    unfolding run
    using OnReceivePacketEvent_absent(1,2) [OF kind absent, where bounds = "Some (0, 0)"] zero
    by simp
qed

lemma filled_head:
  "0 < k \<Longrightarrow>
     \<exists>v rest. map (\<lambda>i. ((of_nat i :: 32 word, 0 :: 16 word), (1 :: int, PACKET_SENT_TO_NETWORK)))
                 [1 ..< Suc k] = ((1, 0), v) # rest"
proof -
  assume "0 < k"
  then have "[1 ..< Suc k] = 1 # [Suc 1 ..< Suc k]"
    by (simp add: upt_conv_Cons del: upt_Suc)
  then show ?thesis
    by (simp del: upt_Suc)
qed

lemma filled_absent:
  assumes "k \<le> 1000"
  shows "map_of (map (\<lambda>i. ((of_nat i :: 32 word, 0 :: 16 word),
                             (1 :: int, PACKET_SENT_TO_NETWORK))) [1 ..< Suc k]) (0, 0) = None"
proof -
  have "(0 :: 32 word) < of_nat i" if "1 \<le> i" "i \<le> 1000" for i
    using rtp_less [of 0 i] that by simp
  then have "(0 :: 32 word) \<noteq> of_nat i" if "1 \<le> i" "i \<le> 1000" for i
    using that by (metis less_irrefl)
  then show ?thesis
    using assms by (auto simp: map_of_eq_None_iff image_iff)
qed

lemma full_packet_cache_times:
  "\<exists>v rest. packet_sent_times full_packet_cache = ((1, 0), v) # rest"
  "map_of (packet_sent_times full_packet_cache) (0, 0) = None"
  "length (packet_sent_times full_packet_cache) = kMaxPacketEventTimeMapSize"
  "network_latency_datapoints full_packet_cache = 0"
  "total_network_latency full_packet_cache = 0"
  "event_media_type full_packet_cache = VIDEO_EVENT"
proof -
  note fill = sent_packets_fill [OF le_refl, of 100, folded full_packet_cache_def]
  from fill have pst: "packet_sent_times full_packet_cache =
      map (\<lambda>i. ((of_nat i, 0), (1, PACKET_SENT_TO_NETWORK))) [1 ..< Suc 1000]"
    by blast
  show "\<exists>v rest. packet_sent_times full_packet_cache = ((1, 0), v) # rest"
    unfolding pst by (rule filled_head) simp
  show "map_of (packet_sent_times full_packet_cache) (0, 0) = None"
    unfolding pst by (rule filled_absent) simp
  show "length (packet_sent_times full_packet_cache) = kMaxPacketEventTimeMapSize"
    unfolding pst kMaxPacketEventTimeMapSize_def by (simp only: length_map length_upt)
  from fill show "network_latency_datapoints full_packet_cache = 0"
    "total_network_latency full_packet_cache = 0"
    by blast+
  show "event_media_type full_packet_cache = VIDEO_EVENT"
    using inv_reachable [of VIDEO_EVENT 100 0 "sent_packets 1000"]
    by (simp add: subscriber_inv_def full_packet_cache_def)
qed

lemma full_packet_cache_rejects:
  assumes kind: "p_type e = PACKET_SENT_TO_NETWORK \<or> p_type e = PACKET_RECEIVED"
    and media: "p_media_type e = VIDEO_EVENT"
    and key: "p_rtp_timestamp e = 0" "p_packet_id e = 0"
  shows "packet_sent_times (OnReceivePacketEvent (Some (0, 0)) e full_packet_cache) =
           packet_sent_times full_packet_cache"
    and "network_latency_datapoints (OnReceivePacketEvent (Some (0, 0)) e full_packet_cache)
           = 0"
    and "total_network_latency (OnReceivePacketEvent (Some (0, 0)) e full_packet_cache) = 0"
    and "event_media_type (OnReceivePacketEvent (Some (0, 0)) e full_packet_cache) =
           VIDEO_EVENT"
proof -
  have absent: "map_of (packet_sent_times full_packet_cache)
                  (p_rtp_timestamp e, p_packet_id e) = None"
    using full_packet_cache_times(2) key by simp
  have media': "p_media_type e = event_media_type full_packet_cache"
    using media by (simp add: full_packet_cache_times)
  obtain v rest where hd: "packet_sent_times full_packet_cache = ((1, 0), v) # rest"
    using full_packet_cache_times(1) by blast
  have less: "(p_rtp_timestamp e, p_packet_id e) < (1 :: 32 word, 0 :: 16 word)"
    using key by simp
  show "packet_sent_times (OnReceivePacketEvent (Some (0, 0)) e full_packet_cache) =
      packet_sent_times full_packet_cache"
    by (rule OnReceivePacketEvent_evicted_at_once
          [OF media' kind refl full_packet_cache_times(3) hd less absent])
  show "network_latency_datapoints (OnReceivePacketEvent (Some (0, 0)) e full_packet_cache)
           = 0"
    "total_network_latency (OnReceivePacketEvent (Some (0, 0)) e full_packet_cache) = 0"
    using OnReceivePacketEvent_absent(1,2) [OF kind absent, where bounds = "Some (0, 0)"]
    by (simp_all add: full_packet_cache_times)
  show "event_media_type (OnReceivePacketEvent (Some (0, 0)) e full_packet_cache) =
           VIDEO_EVENT"
    by (simp add: full_packet_cache_times)
qed

text \<open>
  Claim C7. In every run, let a sent-to-network event and then a retransmitted event
  of the subscriber's media type arrive for one packet, with no received event for that
  packet pending in the pairing cache. Then, whatever the offset estimator answers, the
  cache holds no entry for the packet after the two events, and the running
  network-latency total, the number of data points and all histograms are as before. A
  received event for the packet that comes next finds nothing to pair with and credits
  nothing either.
\<close>

theorem retransmission_excludes_pairing:
  fixes n :: nat and media :: EventMediaType and created :: TimeTicks
    and inputs :: "Input list" and sent retransmitted received :: PacketEvent
    and bounds_a bounds_b bounds_c :: "(TimeDelta \<times> TimeDelta) option"
  defines "s \<equiv> run n (StatsEventSubscriber_ctor media created) inputs"
  defines "s1 \<equiv> OnReceivePacketEvent bounds_a sent s"
  defines "s2 \<equiv> OnReceivePacketEvent bounds_b retransmitted s1"
  defines "s3 \<equiv> OnReceivePacketEvent bounds_c received s2"
  assumes media: "p_media_type sent = media" "p_media_type retransmitted = media"
    and kinds: "p_type sent = PACKET_SENT_TO_NETWORK"
      "p_type retransmitted = PACKET_RETRANSMITTED"
    and key: "p_rtp_timestamp retransmitted = p_rtp_timestamp sent"
      "p_packet_id retransmitted = p_packet_id sent"
    and pending: "map_option snd
        (map_of (packet_sent_times s) (p_rtp_timestamp sent, p_packet_id sent))
          \<noteq> Some PACKET_RECEIVED"
  shows "map_of (packet_sent_times s2) (p_rtp_timestamp sent, p_packet_id sent) = None
    \<and> total_network_latency s2 = total_network_latency s
    \<and> network_latency_datapoints s2 = network_latency_datapoints s
    \<and> histograms s2 = histograms s
    \<and> (p_type received = PACKET_RECEIVED
        \<and> p_rtp_timestamp received = p_rtp_timestamp sent
        \<and> p_packet_id received = p_packet_id sent \<longrightarrow>
          total_network_latency s3 = total_network_latency s
          \<and> network_latency_datapoints s3 = network_latency_datapoints s
          \<and> histograms s3 = histograms s)"
proof -
  have inv: "subscriber_inv media s"
    unfolding s_def by (rule inv_reachable)
  have inv1: "subscriber_inv media s1"
    unfolding s1_def by (rule inv_OnReceivePacketEvent [OF inv])
  then have sorted1: "sorted_wrt (<) (map fst (packet_sent_times s1))"
    and media1: "event_media_type s1 = media"
    by (simp_all add: subscriber_inv_def)
  note first = OnReceivePacketEvent_no_credit
    [OF kinds(1) pending, where bounds = bounds_a, folded s1_def]
  note second = OnReceivePacketEvent_retransmitted
    [OF kinds(2), where bounds = bounds_b and s = s1, folded s2_def]
  have "packet_sent_times s2 =
      map_erase (p_rtp_timestamp sent, p_packet_id sent) (packet_sent_times s1)"
    using second(4) media(2) media1 key by simp
  then have gone: "map_of (packet_sent_times s2) (p_rtp_timestamp sent, p_packet_id sent) = None"
    by (simp add: map_of_map_erase [OF sorted1])
  have same: "total_network_latency s2 = total_network_latency s"
    "network_latency_datapoints s2 = network_latency_datapoints s"
    "histograms s2 = histograms s"
    using first second(1,2,3) by simp_all
  have later: "total_network_latency s3 = total_network_latency s
          \<and> network_latency_datapoints s3 = network_latency_datapoints s
          \<and> histograms s3 = histograms s"
    if r: "p_type received = PACKET_RECEIVED"
      "p_rtp_timestamp received = p_rtp_timestamp sent"
      "p_packet_id received = p_packet_id sent"
  proof -
    have k: "p_type received = PACKET_SENT_TO_NETWORK \<or> p_type received = PACKET_RECEIVED"
      using r(1) by simp
    have a: "map_of (packet_sent_times s2)
        (p_rtp_timestamp received, p_packet_id received) = None"
      using gone r(2,3) by simp
    show ?thesis
      using OnReceivePacketEvent_absent(1,2,3) [OF k a, where bounds = bounds_c, folded s3_def]
        same
      by simp
  qed
  from gone same later show ?thesis by blast
qed

theorem retransmission_excludes_pairing_witness:
  "map_of (packet_sent_times
       (OnReceivePacketEvent (Some (0, 0))
          \<lparr>p_timestamp = 2, p_type = PACKET_RETRANSMITTED, p_media_type = VIDEO_EVENT,
           p_rtp_timestamp = 7, p_packet_id = 0, p_size = 10\<rparr>
          (OnReceivePacketEvent (Some (0, 0))
             \<lparr>p_timestamp = 1, p_type = PACKET_SENT_TO_NETWORK, p_media_type = VIDEO_EVENT,
              p_rtp_timestamp = 7, p_packet_id = 0, p_size = 10\<rparr>
             (StatsEventSubscriber_ctor VIDEO_EVENT 0)))) (7, 0) = None
   \<and> network_latency_datapoints
       (OnReceivePacketEvent (Some (0, 0))
          \<lparr>p_timestamp = 3, p_type = PACKET_RECEIVED, p_media_type = VIDEO_EVENT,
           p_rtp_timestamp = 7, p_packet_id = 0, p_size = 10\<rparr>
       (OnReceivePacketEvent (Some (0, 0))
          \<lparr>p_timestamp = 2, p_type = PACKET_RETRANSMITTED, p_media_type = VIDEO_EVENT,
           p_rtp_timestamp = 7, p_packet_id = 0, p_size = 10\<rparr>
          (OnReceivePacketEvent (Some (0, 0))
             \<lparr>p_timestamp = 1, p_type = PACKET_SENT_TO_NETWORK, p_media_type = VIDEO_EVENT,
              p_rtp_timestamp = 7, p_packet_id = 0, p_size = 10\<rparr>
             (StatsEventSubscriber_ctor VIDEO_EVENT 0)))) = 0"
  using retransmission_excludes_pairing
    [where n = 100 and media = VIDEO_EVENT and created = 0 and inputs = "[]"
       and bounds_a = "Some (0, 0)" and bounds_b = "Some (0, 0)" and bounds_c = "Some (0, 0)"
       and sent = "\<lparr>p_timestamp = 1, p_type = PACKET_SENT_TO_NETWORK,
                     p_media_type = VIDEO_EVENT, p_rtp_timestamp = 7, p_packet_id = 0,
                     p_size = 10\<rparr>"
       and retransmitted = "\<lparr>p_timestamp = 2, p_type = PACKET_RETRANSMITTED,
                     p_media_type = VIDEO_EVENT, p_rtp_timestamp = 7, p_packet_id = 0,
                     p_size = 10\<rparr>"
       and received = "\<lparr>p_timestamp = 3, p_type = PACKET_RECEIVED,
                     p_media_type = VIDEO_EVENT, p_rtp_timestamp = 7, p_packet_id = 0,
                     p_size = 10\<rparr>"]
  by (simp add: run_def StatsEventSubscriber_ctor_def)

text \<open>
  Claim C4 fails as stated: the pairing cache holds at most 1000 entries, and an entry
  whose key is below all 1000 cached keys is erased in the call that stores it. After
  1000 sent packets of the frames 1 to 1000, a sent-to-network event and then a
  received event for packet 0 of frame 0 leave the cache as it was and credit nothing.
\<close>

theorem network_latency_pairing_counterexample:
  "length (packet_sent_times full_packet_cache) = 1000
   \<and> map_of (packet_sent_times full_packet_cache) (0, 0) = None
   \<and> map_of (packet_sent_times
         (OnReceivePacketEvent (Some (0, 0))
            \<lparr>p_timestamp = 10, p_type = PACKET_SENT_TO_NETWORK, p_media_type = VIDEO_EVENT,
             p_rtp_timestamp = 0, p_packet_id = 0, p_size = 0\<rparr>
            full_packet_cache)) (0, 0) = None
   \<and> network_latency_datapoints
        (OnReceivePacketEvent (Some (0, 0))
           \<lparr>p_timestamp = 20, p_type = PACKET_RECEIVED, p_media_type = VIDEO_EVENT,
            p_rtp_timestamp = 0, p_packet_id = 0, p_size = 0\<rparr>
           (OnReceivePacketEvent (Some (0, 0))
              \<lparr>p_timestamp = 10, p_type = PACKET_SENT_TO_NETWORK, p_media_type = VIDEO_EVENT,
               p_rtp_timestamp = 0, p_packet_id = 0, p_size = 0\<rparr>
              full_packet_cache)) = 0"
proof -
  let ?sent = "\<lparr>p_timestamp = 10, p_type = PACKET_SENT_TO_NETWORK, p_media_type = VIDEO_EVENT,
             p_rtp_timestamp = 0, p_packet_id = 0, p_size = 0\<rparr>"
  let ?received = "\<lparr>p_timestamp = 20, p_type = PACKET_RECEIVED, p_media_type = VIDEO_EVENT,
            p_rtp_timestamp = 0, p_packet_id = 0, p_size = 0\<rparr>"
  let ?s1 = "OnReceivePacketEvent (Some (0, 0)) ?sent full_packet_cache"
  have len: "length (packet_sent_times full_packet_cache) = 1000"
    using full_packet_cache_times(3) by (simp add: kMaxPacketEventTimeMapSize_def)
  have same: "packet_sent_times ?s1 = packet_sent_times full_packet_cache"
    and zero: "network_latency_datapoints ?s1 = 0"
    by (rule full_packet_cache_rejects; simp)+
  have absent: "map_of (packet_sent_times ?s1)
      (p_rtp_timestamp ?received, p_packet_id ?received) = None"
    unfolding same using full_packet_cache_times(2) by simp
  have "network_latency_datapoints (OnReceivePacketEvent (Some (0, 0)) ?received ?s1) = 0"
    using OnReceivePacketEvent_absent(2) [OF _ absent, where bounds = "Some (0, 0)"] zero
    by simp
  with len same full_packet_cache_times(2) show ?thesis by simp
qed

text \<open>
  Claim C4, amended. In every run, for a sent-to-network or received event of the
  subscriber's media type, handled while the offset estimator gives bounds:
  \<^item> if the cache has no entry for the packet, the event's timestamp and kind are stored
    for it and nothing is credited, unless the cache already holds 1000 entries and the
    key is below all of them;
  \<^item> if the cache has an entry of the complementary kind, the latency
    \<open>(received timestamp - offset) - sent timestamp\<close>, with the offset
    \<open>(lower + upper) / 2\<close>, is added to the running total, the number of data points
    goes up by one, the packet-latency histogram gets this one sample (in whole
    milliseconds, truncated) and no other histogram changes, the entry is erased, and
    a further sent or received event for the packet is stored as the first of a new pair
    without any credit;
  \<^item> if the cache has an entry that is not of the complementary kind, the cache, the
    total, the number of data points and the histograms stay as they are.
\<close>

theorem network_latency_pairing:
  fixes n :: nat and media :: EventMediaType and created :: TimeTicks
    and inputs :: "Input list" and e next_event :: PacketEvent
    and lower upper lower' upper' :: TimeDelta
    and recorded_time :: TimeTicks and recorded_type :: CastLoggingEvent
  defines "s \<equiv> run n (StatsEventSubscriber_ctor media created) inputs"
  defines "key \<equiv> (p_rtp_timestamp e, p_packet_id e)"
  defines "s' \<equiv> OnReceivePacketEvent (Some (lower, upper)) e s"
  defines "s'' \<equiv> OnReceivePacketEvent (Some (lower', upper')) next_event s'"
  defines "complementary \<equiv>
      (recorded_type = PACKET_SENT_TO_NETWORK \<and> p_type e = PACKET_RECEIVED)
      \<or> (recorded_type = PACKET_RECEIVED \<and> p_type e = PACKET_SENT_TO_NETWORK)"
  defines "latency \<equiv>
      (if p_type e = PACKET_RECEIVED
       then (p_timestamp e - int64_div (lower + upper) 2) - recorded_time
       else (recorded_time - int64_div (lower + upper) 2) - p_timestamp e)"
  assumes media: "p_media_type e = media"
    and kind: "p_type e = PACKET_SENT_TO_NETWORK \<or> p_type e = PACKET_RECEIVED"
  shows "(map_of (packet_sent_times s) key = None
          \<and> (length (packet_sent_times s) < kMaxPacketEventTimeMapSize
             \<or> (packet_sent_times s \<noteq> [] \<and> fst (hd (packet_sent_times s)) < key)) \<longrightarrow>
            map_of (packet_sent_times s') key = Some (p_timestamp e, p_type e)
            \<and> total_network_latency s' = total_network_latency s
            \<and> network_latency_datapoints s' = network_latency_datapoints s
            \<and> histograms s' = histograms s)
    \<and> (map_of (packet_sent_times s) key = Some (recorded_time, recorded_type)
          \<and> complementary \<longrightarrow>
            total_network_latency s' = total_network_latency s + latency
            \<and> network_latency_datapoints s' = network_latency_datapoints s + 1
            \<and> histograms s PACKET_LATENCY_MS_HISTO \<noteq> None
            \<and> histograms s' PACKET_LATENCY_MS_HISTO =
                map_option (Add (int64_div latency 1000)) (histograms s PACKET_LATENCY_MS_HISTO)
            \<and> (stat \<noteq> PACKET_LATENCY_MS_HISTO \<longrightarrow> histograms s' stat = histograms s stat)
            \<and> map_of (packet_sent_times s') key = None
            \<and> (p_media_type next_event = media
                \<and> (p_type next_event = PACKET_SENT_TO_NETWORK
                   \<or> p_type next_event = PACKET_RECEIVED)
                \<and> (p_rtp_timestamp next_event, p_packet_id next_event) = key \<longrightarrow>
                  map_of (packet_sent_times s'') key =
                    Some (p_timestamp next_event, p_type next_event)
                  \<and> total_network_latency s'' = total_network_latency s'
                  \<and> network_latency_datapoints s'' = network_latency_datapoints s'
                  \<and> histograms s'' = histograms s'))
    \<and> (map_of (packet_sent_times s) key = Some (recorded_time, recorded_type)
          \<and> \<not> complementary \<longrightarrow>
            packet_sent_times s' = packet_sent_times s
            \<and> total_network_latency s' = total_network_latency s
            \<and> network_latency_datapoints s' = network_latency_datapoints s
            \<and> histograms s' = histograms s)"
proof -
  have inv: "subscriber_inv media s"
    unfolding s_def by (rule inv_reachable)
  then have sorted: "sorted_wrt (<) (map fst (packet_sent_times s))"
    and m: "p_media_type e = event_media_type s"
    and hs: "histograms_ok (histograms s)"
    using media by (simp_all add: subscriber_inv_def)
  have inv': "subscriber_inv media s'"
    unfolding s'_def by (rule inv_OnReceivePacketEvent [OF inv])
  have bounded: "length (packet_sent_times s) \<le> kMaxPacketEventTimeMapSize"
    unfolding s_def by (rule packet_cache_bounded)
  have first: "map_of (packet_sent_times s') key = Some (p_timestamp e, p_type e)
            \<and> total_network_latency s' = total_network_latency s
            \<and> network_latency_datapoints s' = network_latency_datapoints s
            \<and> histograms s' = histograms s"
    if absent: "map_of (packet_sent_times s) key = None"
      and room: "length (packet_sent_times s) < kMaxPacketEventTimeMapSize
             \<or> (packet_sent_times s \<noteq> [] \<and> fst (hd (packet_sent_times s)) < key)"
    using OnReceivePacketEvent_stored [OF m kind refl sorted, of lower upper]
      OnReceivePacketEvent_absent(1,2,3) [OF kind, where s = s and bounds = "Some (lower, upper)"]
      absent room
    unfolding key_def s'_def by simp
  have second: "total_network_latency s' = total_network_latency s + latency
            \<and> network_latency_datapoints s' = network_latency_datapoints s + 1
            \<and> histograms s PACKET_LATENCY_MS_HISTO \<noteq> None
            \<and> histograms s' PACKET_LATENCY_MS_HISTO =
                map_option (Add (int64_div latency 1000)) (histograms s PACKET_LATENCY_MS_HISTO)
            \<and> (stat \<noteq> PACKET_LATENCY_MS_HISTO \<longrightarrow> histograms s' stat = histograms s stat)
            \<and> map_of (packet_sent_times s') key = None
            \<and> (p_media_type next_event = media
                \<and> (p_type next_event = PACKET_SENT_TO_NETWORK
                   \<or> p_type next_event = PACKET_RECEIVED)
                \<and> (p_rtp_timestamp next_event, p_packet_id next_event) = key \<longrightarrow>
                  map_of (packet_sent_times s'') key =
                    Some (p_timestamp next_event, p_type next_event)
                  \<and> total_network_latency s'' = total_network_latency s'
                  \<and> network_latency_datapoints s'' = network_latency_datapoints s'
                  \<and> histograms s'' = histograms s')"
    if stored: "map_of (packet_sent_times s) key = Some (recorded_time, recorded_type)"
      and compl: complementary
  proof -
    note p = OnReceivePacketEvent_paired
      [OF m refl sorted stored [unfolded key_def] compl [unfolded complementary_def]
         latency_def [THEN meta_eq_to_obj_eq], folded s'_def key_def]
    have defined: "histograms s PACKET_LATENCY_MS_HISTO \<noteq> None"
      using histograms_ok_defined [OF hs, of PACKET_LATENCY_MS_HISTO] by auto
    have hist: "histograms s' PACKET_LATENCY_MS_HISTO =
        map_option (Add (int64_div latency 1000)) (histograms s PACKET_LATENCY_MS_HISTO)"
      and others: "stat \<noteq> PACKET_LATENCY_MS_HISTO \<longrightarrow> histograms s' stat = histograms s stat"
      unfolding p(3) by (simp_all add: histograms_Add_ms)
    have gone: "map_of (packet_sent_times s') key = None"
      unfolding p(4) by (simp add: map_of_map_erase [OF sorted])
    have less: "length (packet_sent_times s') < kMaxPacketEventTimeMapSize"
      unfolding p(4) using length_map_erase_present [OF stored] bounded by simp
    have fresh: "map_of (packet_sent_times s'') key =
                    Some (p_timestamp next_event, p_type next_event)
                  \<and> total_network_latency s'' = total_network_latency s'
                  \<and> network_latency_datapoints s'' = network_latency_datapoints s'
                  \<and> histograms s'' = histograms s'"
      if nm: "p_media_type next_event = media"
        and nk: "p_type next_event = PACKET_SENT_TO_NETWORK
                   \<or> p_type next_event = PACKET_RECEIVED"
        and nkey: "(p_rtp_timestamp next_event, p_packet_id next_event) = key"
    proof -
      have m': "p_media_type next_event = event_media_type s'"
        and sorted': "sorted_wrt (<) (map fst (packet_sent_times s'))"
        using inv' nm by (simp_all add: subscriber_inv_def)
      have absent': "map_of (packet_sent_times s')
          (p_rtp_timestamp next_event, p_packet_id next_event) = None"
        using gone nkey by simp
      show ?thesis
        using OnReceivePacketEvent_stored [OF m' nk refl sorted' absent', of lower' upper']
          OnReceivePacketEvent_absent(1,2,3)
            [OF nk absent', where bounds = "Some (lower', upper')"]
          less nkey
        unfolding s''_def by simp
    qed
    from p(1,2) defined hist others gone fresh show ?thesis by blast
  qed
  have third: "packet_sent_times s' = packet_sent_times s
            \<and> total_network_latency s' = total_network_latency s
            \<and> network_latency_datapoints s' = network_latency_datapoints s
            \<and> histograms s' = histograms s"
    if stored: "map_of (packet_sent_times s) key = Some (recorded_time, recorded_type)"
      and compl: "\<not> complementary"
    using OnReceivePacketEvent_unpaired
      [OF kind stored [unfolded key_def] compl [unfolded complementary_def],
         where bounds = "Some (lower, upper)", folded s'_def]
    by simp
  from first second third show ?thesis by blast
qed

theorem network_latency_pairing_witness:
  "total_network_latency
     (OnReceivePacketEvent (Some (2000, 4000))
        \<lparr>p_timestamp = 6000, p_type = PACKET_RECEIVED, p_media_type = VIDEO_EVENT,
         p_rtp_timestamp = 7, p_packet_id = 0, p_size = 10\<rparr>
        (run 100 (StatsEventSubscriber_ctor VIDEO_EVENT 0)
           [Packet (Some (0, 0))
              \<lparr>p_timestamp = 1000, p_type = PACKET_SENT_TO_NETWORK,
               p_media_type = VIDEO_EVENT, p_rtp_timestamp = 7, p_packet_id = 0,
               p_size = 10\<rparr>])) = 2000
   \<and> network_latency_datapoints
       (OnReceivePacketEvent (Some (2000, 4000))
          \<lparr>p_timestamp = 6000, p_type = PACKET_RECEIVED, p_media_type = VIDEO_EVENT,
           p_rtp_timestamp = 7, p_packet_id = 0, p_size = 10\<rparr>
          (run 100 (StatsEventSubscriber_ctor VIDEO_EVENT 0)
             [Packet (Some (0, 0))
                \<lparr>p_timestamp = 1000, p_type = PACKET_SENT_TO_NETWORK,
                 p_media_type = VIDEO_EVENT, p_rtp_timestamp = 7, p_packet_id = 0,
                 p_size = 10\<rparr>])) = 1"
  using network_latency_pairing
    [where n = 100 and media = VIDEO_EVENT and created = 0
       and inputs = "[Packet (Some (0, 0))
              \<lparr>p_timestamp = 1000, p_type = PACKET_SENT_TO_NETWORK,
               p_media_type = VIDEO_EVENT, p_rtp_timestamp = 7, p_packet_id = 0,
               p_size = 10\<rparr>]"
       and e = "\<lparr>p_timestamp = 6000, p_type = PACKET_RECEIVED, p_media_type = VIDEO_EVENT,
                  p_rtp_timestamp = 7, p_packet_id = 0, p_size = 10\<rparr>"
       and lower = 2000 and upper = 4000 and lower' = 0 and upper' = 0
       and recorded_time = 1000 and recorded_type = PACKET_SENT_TO_NETWORK
       and stat = CAPTURE_LATENCY_MS_HISTO
       and next_event = "\<lparr>p_timestamp = 9000, p_type = PACKET_SENT_TO_NETWORK,
                  p_media_type = VIDEO_EVENT, p_rtp_timestamp = 7, p_packet_id = 0,
                  p_size = 10\<rparr>"]
  by (simp add: run_def OnReceivePacketEvent_absent StatsEventSubscriber_ctor_def
        kMaxPacketEventTimeMapSize_def int64_div_def)

subsection \<open>The frame cache\<close>

lemma dropped_MaybeInsertFrameInfo:
  "num_frames_dropped_by_encoder (MaybeInsertFrameInfo n rtp info s) =
     (if length (recent_frame_infos s) = n \<and>
         (case recent_frame_infos s of [] \<Rightarrow> False | (k, _) # _ \<Rightarrow> rtp < k)
      then num_frames_dropped_by_encoder s
      else if n \<le> length (map_insert rtp info (recent_frame_infos s)) \<and>
              is_null (encode_time (snd (hd (map_insert rtp info (recent_frame_infos s)))))
      then num_frames_dropped_by_encoder s + 1
      else num_frames_dropped_by_encoder s)"
proof (cases "map_insert rtp info (recent_frame_infos s)")
  case Nil
  then show ?thesis by simp
next
  case (Cons p ps)
  then show ?thesis
    by (cases p) (simp add: MaybeInsertFrameInfo_def Let_def)
qed

lemma frame_cache_below_MaybeInsertFrameInfo:
  assumes "length (recent_frame_infos s) \<le> n"
  shows "length (recent_frame_infos (MaybeInsertFrameInfo (Suc n) rtp info s)) \<le> n"
  using assms length_map_insert_le [of rtp info "recent_frame_infos s"]
  unfolding recent_MaybeInsertFrameInfo by auto

lemma length_map_modify [simp]: "length (map_modify k f ps) = length ps"
  by (induction ps) auto

lemma frame_cache_below_dispatch:
  assumes "length (recent_frame_infos s) \<le> n"
  shows "length (recent_frame_infos (dispatch_frame_event (Suc n) bounds e s)) \<le> n"
  using assms
  by (auto simp: dispatch_frame_event_def Let_def RecordFrameCaptureTime_def
        RecordCaptureLatency_def RecordEncodeLatency_def frame_cache_below_MaybeInsertFrameInfo
        split: option.splits)

lemma frame_cache_below_step:
  assumes "length (recent_frame_infos s) \<le> n"
  shows "length (recent_frame_infos (step (Suc n) s x)) \<le> n"
proof (cases x)
  case (Frame bounds e)
  with assms show ?thesis
    by (simp add: OnReceiveFrameEvent_def Let_def frame_cache_below_dispatch)
next
  case (Packet bounds e)
  with assms show ?thesis by simp
next
  case (DoReset now)
  then show ?thesis by (simp add: Reset_def)
qed

lemma frame_cache_never_full:
  "length (recent_frame_infos (run (Suc n) (StatsEventSubscriber_ctor media created) inputs))
     \<le> n"
proof -
  have "length (recent_frame_infos s) \<le> n \<Longrightarrow>
      length (recent_frame_infos (run (Suc n) s inputs)) \<le> n" for s
    by (induction inputs arbitrary: s) (simp_all add: run_def frame_cache_below_step)
  then show ?thesis by (simp add: StatsEventSubscriber_ctor_def)
qed

lemma OnReceiveFrameEvent_capture_begin:
  assumes "f_media_type e = event_media_type s" and "f_type e = FRAME_CAPTURE_BEGIN"
  shows "recent_frame_infos (OnReceiveFrameEvent n bounds e s) =
           recent_frame_infos
             (MaybeInsertFrameInfo n (f_rtp_timestamp e)
                (FrameInfo_ctor\<lparr>capture_time := f_timestamp e\<rparr>) s)"
    and "num_frames_dropped_by_encoder (OnReceiveFrameEvent n bounds e s) =
           num_frames_dropped_by_encoder
             (MaybeInsertFrameInfo n (f_rtp_timestamp e)
                (FrameInfo_ctor\<lparr>capture_time := f_timestamp e\<rparr>) s)"
    and "histograms (OnReceiveFrameEvent n bounds e s) = histograms s"
  using assms
  by (simp_all add: OnReceiveFrameEvent_def dispatch_frame_event_def Let_def
        RecordFrameCaptureTime_def IsReceiverEvent_def recent_MaybeInsertFrameInfo
        dropped_MaybeInsertFrameInfo)

lemma OnReceiveFrameEvent_capture_end:
  assumes "f_media_type e = event_media_type s" and "f_type e = FRAME_CAPTURE_END"
    and "map_of (recent_frame_infos s) (f_rtp_timestamp e) = Some info"
    and "\<not> is_null (capture_time info)"
  shows "histograms (OnReceiveFrameEvent n bounds e s) =
           histograms_Add CAPTURE_LATENCY_MS_HISTO
             (InMillisecondsF (capture_time info - f_timestamp e)) (histograms s)"
  using assms
  by (simp add: OnReceiveFrameEvent_def dispatch_frame_event_def Let_def
        RecordCaptureLatency_def IsReceiverEvent_def)

lemma OnReceiveFrameEvent_encoded_first:
  assumes "f_media_type e = event_media_type s" and "f_type e = FRAME_ENCODED"
    and "map_of (recent_frame_infos s) (f_rtp_timestamp e) = None"
  shows "recent_frame_infos (OnReceiveFrameEvent n bounds e s) =
           recent_frame_infos
             (MaybeInsertFrameInfo n (f_rtp_timestamp e)
                (FrameInfo_ctor\<lparr>encode_time := f_timestamp e\<rparr>) s)"
    and "e2e_latency_datapoints (OnReceiveFrameEvent n bounds e s) = e2e_latency_datapoints s"
    and "total_e2e_latency (OnReceiveFrameEvent n bounds e s) = total_e2e_latency s"
  using assms
  by (simp_all add: OnReceiveFrameEvent_def dispatch_frame_event_def Let_def
        RecordEncodeLatency_def IsReceiverEvent_def recent_MaybeInsertFrameInfo)

lemma OnReceiveFrameEvent_playout:
  assumes "f_media_type e = event_media_type s" and "f_type e = FRAME_PLAYOUT"
    and "bounds = Some (lower, upper)"
    and "map_of (recent_frame_infos s) (f_rtp_timestamp e) = Some info"
  shows "e2e_latency_datapoints (OnReceiveFrameEvent n bounds e s) =
           e2e_latency_datapoints s + 1"
    and "total_e2e_latency (OnReceiveFrameEvent n bounds e s) =
           total_e2e_latency s +
             (f_timestamp e + f_delay_delta e - int64_div (lower + upper) 2
                - capture_time info)"
  using assms
  by (simp_all add: OnReceiveFrameEvent_def dispatch_frame_event_def Let_def
        RecordE2ELatency_def IsReceiverEvent_def GetReceiverOffset_def)

text \<open>
  Claim C1 is what the cache is meant to do, and the code does not do it: the test
  after the insertion is \<open>size() >= kMaxFrameInfoMapSize\<close>, so an entry is evicted as
  soon as the map holds \<open>N\<close> entries, and the map never holds \<open>N\<close> of them in any run
  (the first test of \<open>MaybeInsertFrameInfo\<close>, on \<open>size() == N\<close>, is never true). With
  \<open>N = 3\<close>, four capture-begin events with the RTP timestamps 1, 2, 3, 4 leave two
  entries, those of 3 and 4, and count two frames as dropped by the encoder.
\<close>

theorem frame_cache_evicts_one_early:
  "length (recent_frame_infos (run (Suc n) (StatsEventSubscriber_ctor media created) inputs))
     < Suc n
   \<and> map fst (recent_frame_infos
        (run 3 (StatsEventSubscriber_ctor VIDEO_EVENT 0)
          [Frame None \<lparr>f_timestamp = 10, f_type = FRAME_CAPTURE_BEGIN,
                       f_media_type = VIDEO_EVENT, f_rtp_timestamp = 1, f_size = 0,
                       f_delay_delta = 0\<rparr>,
           Frame None \<lparr>f_timestamp = 20, f_type = FRAME_CAPTURE_BEGIN,
                       f_media_type = VIDEO_EVENT, f_rtp_timestamp = 2, f_size = 0,
                       f_delay_delta = 0\<rparr>,
           Frame None \<lparr>f_timestamp = 30, f_type = FRAME_CAPTURE_BEGIN,
                       f_media_type = VIDEO_EVENT, f_rtp_timestamp = 3, f_size = 0,
                       f_delay_delta = 0\<rparr>,
           Frame None \<lparr>f_timestamp = 40, f_type = FRAME_CAPTURE_BEGIN,
                       f_media_type = VIDEO_EVENT, f_rtp_timestamp = 4, f_size = 0,
                       f_delay_delta = 0\<rparr>])) = [3, 4]
   \<and> num_frames_dropped_by_encoder
        (run 3 (StatsEventSubscriber_ctor VIDEO_EVENT 0)
          [Frame None \<lparr>f_timestamp = 10, f_type = FRAME_CAPTURE_BEGIN,
                       f_media_type = VIDEO_EVENT, f_rtp_timestamp = 1, f_size = 0,
                       f_delay_delta = 0\<rparr>,
           Frame None \<lparr>f_timestamp = 20, f_type = FRAME_CAPTURE_BEGIN,
                       f_media_type = VIDEO_EVENT, f_rtp_timestamp = 2, f_size = 0,
                       f_delay_delta = 0\<rparr>,
           Frame None \<lparr>f_timestamp = 30, f_type = FRAME_CAPTURE_BEGIN,
                       f_media_type = VIDEO_EVENT, f_rtp_timestamp = 3, f_size = 0,
                       f_delay_delta = 0\<rparr>,
           Frame None \<lparr>f_timestamp = 40, f_type = FRAME_CAPTURE_BEGIN,
                       f_media_type = VIDEO_EVENT, f_rtp_timestamp = 4, f_size = 0,
                       f_delay_delta = 0\<rparr>]) = 2"
proof -
  have "length (recent_frame_infos
      (run (Suc n) (StatsEventSubscriber_ctor media created) inputs)) < Suc n"
    using frame_cache_never_full [of n media created inputs] by simp
  then show ?thesis
    by (simp add: run_def OnReceiveFrameEvent_capture_begin recent_MaybeInsertFrameInfo
          dropped_MaybeInsertFrameInfo StatsEventSubscriber_ctor_def FrameInfo_ctor_def
          is_null_def)
qed

text \<open>
  Claim C3 is what the sibling functions do (each tests its timestamp with
  \<open>is_null\<close>), and \<open>RecordE2ELatency\<close> does not: it tests for the offset and for the
  frame's entry only. An encoded event for a frame that was never captured creates an
  entry with a null \<open>capture_time\<close>; the playout event of that frame is then counted as
  an end-to-end sample, of the whole playout time.
\<close>

theorem e2e_latency_without_capture_time:
  "map_option capture_time
     (map_of (recent_frame_infos
        (run 100 (StatsEventSubscriber_ctor VIDEO_EVENT 0)
          [Frame None \<lparr>f_timestamp = 25000, f_type = FRAME_ENCODED,
                       f_media_type = VIDEO_EVENT, f_rtp_timestamp = 100, f_size = 1000,
                       f_delay_delta = 0\<rparr>])) 100) = Some 0
   \<and> e2e_latency_datapoints
        (run 100 (StatsEventSubscriber_ctor VIDEO_EVENT 0)
          [Frame None \<lparr>f_timestamp = 25000, f_type = FRAME_ENCODED,
                       f_media_type = VIDEO_EVENT, f_rtp_timestamp = 100, f_size = 1000,
                       f_delay_delta = 0\<rparr>,
           Frame (Some (0, 0)) \<lparr>f_timestamp = 50000, f_type = FRAME_PLAYOUT,
                       f_media_type = VIDEO_EVENT, f_rtp_timestamp = 100, f_size = 0,
                       f_delay_delta = 1000\<rparr>]) = 1
   \<and> total_e2e_latency
        (run 100 (StatsEventSubscriber_ctor VIDEO_EVENT 0)
          [Frame None \<lparr>f_timestamp = 25000, f_type = FRAME_ENCODED,
                       f_media_type = VIDEO_EVENT, f_rtp_timestamp = 100, f_size = 1000,
                       f_delay_delta = 0\<rparr>,
           Frame (Some (0, 0)) \<lparr>f_timestamp = 50000, f_type = FRAME_PLAYOUT,
                       f_media_type = VIDEO_EVENT, f_rtp_timestamp = 100, f_size = 0,
                       f_delay_delta = 1000\<rparr>]) = 51000"
proof -
  let ?encoded = "\<lparr>f_timestamp = 25000, f_type = FRAME_ENCODED,
                       f_media_type = VIDEO_EVENT, f_rtp_timestamp = 100, f_size = 1000,
                       f_delay_delta = 0\<rparr>"
  let ?playout = "\<lparr>f_timestamp = 50000, f_type = FRAME_PLAYOUT,
                       f_media_type = VIDEO_EVENT, f_rtp_timestamp = 100, f_size = 0,
                       f_delay_delta = 1000\<rparr>"
  let ?s0 = "StatsEventSubscriber_ctor VIDEO_EVENT 0"
  let ?s1 = "OnReceiveFrameEvent 100 None ?encoded ?s0"
  have s0: "recent_frame_infos ?s0 = []" "event_media_type ?s0 = VIDEO_EVENT"
    "e2e_latency_datapoints ?s0 = 0" "total_e2e_latency ?s0 = 0"
    by (simp_all add: StatsEventSubscriber_ctor_def)
  note first = OnReceiveFrameEvent_encoded_first [of ?encoded ?s0 100 None]
  have cache: "recent_frame_infos ?s1 = [(100, FrameInfo_ctor\<lparr>encode_time := 25000\<rparr>)]"
    using first(1) s0 by (simp add: recent_MaybeInsertFrameInfo)
  have entry: "map_of (recent_frame_infos ?s1) (f_rtp_timestamp ?playout) =
      Some (FrameInfo_ctor\<lparr>encode_time := 25000\<rparr>)"
    unfolding cache by simp
  have media: "f_media_type ?playout = event_media_type ?s1"
    using s0 by simp
  note played = OnReceiveFrameEvent_playout [OF media _ refl entry, of 100 0 0]
  have "e2e_latency_datapoints ?s1 = 0" "total_e2e_latency ?s1 = 0"
    using first(2,3) s0 by simp_all
  with played cache show ?thesis
    by (simp add: run_def FrameInfo_ctor_def int64_div_def)
qed

text \<open>
  Claim C6 fails as stated: the sample is a \<open>double\<close> number of milliseconds, and
  \<open>Add\<close> takes an \<open>int64\<close>, so the fraction is cut off towards zero. A capture-end
  event half a millisecond after the capture-begin event gives the sample 0, which goes
  to bucket 1, the first inner bucket; bucket 0 and the other buckets stay empty.
\<close>

theorem capture_latency_sample_counterexample:
  "map_option buckets
     (histograms
        (run 100 (StatsEventSubscriber_ctor VIDEO_EVENT 0)
          [Frame None \<lparr>f_timestamp = 1000, f_type = FRAME_CAPTURE_BEGIN,
                       f_media_type = VIDEO_EVENT, f_rtp_timestamp = 100, f_size = 0,
                       f_delay_delta = 0\<rparr>,
           Frame None \<lparr>f_timestamp = 1500, f_type = FRAME_CAPTURE_END,
                       f_media_type = VIDEO_EVENT, f_rtp_timestamp = 100, f_size = 0,
                       f_delay_delta = 0\<rparr>])
        CAPTURE_LATENCY_MS_HISTO) = Some (0 # 1 # replicate 40 0)"
proof -
  let ?begin = "\<lparr>f_timestamp = 1000, f_type = FRAME_CAPTURE_BEGIN,
                       f_media_type = VIDEO_EVENT, f_rtp_timestamp = 100, f_size = 0,
                       f_delay_delta = 0\<rparr>"
  let ?end = "\<lparr>f_timestamp = 1500, f_type = FRAME_CAPTURE_END,
                       f_media_type = VIDEO_EVENT, f_rtp_timestamp = 100, f_size = 0,
                       f_delay_delta = 0\<rparr>"
  let ?s0 = "StatsEventSubscriber_ctor VIDEO_EVENT 0"
  let ?s1 = "OnReceiveFrameEvent 100 None ?begin ?s0"
  have s0: "recent_frame_infos ?s0 = []" "event_media_type ?s0 = VIDEO_EVENT"
    "histograms ?s0 = InitHistograms"
    by (simp_all add: StatsEventSubscriber_ctor_def)
  have cache: "recent_frame_infos ?s1 = [(100, FrameInfo_ctor\<lparr>capture_time := 1000\<rparr>)]"
    and hist: "histograms ?s1 = InitHistograms"
    using OnReceiveFrameEvent_capture_begin [of ?begin ?s0 100 None] s0
    by (simp_all add: recent_MaybeInsertFrameInfo)
  have entry: "map_of (recent_frame_infos ?s1) (f_rtp_timestamp ?end) =
      Some (FrameInfo_ctor\<lparr>capture_time := 1000\<rparr>)"
    unfolding cache by simp
  have media: "f_media_type ?end = event_media_type ?s1"
    using s0 by simp
  have "histograms (OnReceiveFrameEvent 100 None ?end ?s1) CAPTURE_LATENCY_MS_HISTO =
      Some (Add 0 \<lparr>h_min = 0, h_max = 800, h_width = 20, buckets = replicate 42 0\<rparr>)"
    using OnReceiveFrameEvent_capture_end [OF media _ entry, of 100 None]
    by (simp add: hist histograms_Add_ms FrameInfo_ctor_def is_null_def int64_div_def
          InitHistograms_def InitHistograms_value)
  moreover have "(replicate 42 0)[1 := Suc 0] = 0 # 1 # replicate 40 (0 :: nat)"
    by (simp add: numeral_eq_Suc)
  ultimately show ?thesis
    by (simp add: run_def Add_def Add_index_def int64_div_def)
qed

text \<open>
  Claim C6, amended. In every run, when a capture-end event of the subscriber's media
  type arrives for a frame whose cache entry holds a capture-begin time that is not
  null, the capture-latency histogram gets one sample and no other histogram changes.
  The sample is the capture-begin time minus the event's own time, in milliseconds with
  the fraction cut off towards zero. If the capture-end is at least one millisecond
  after the capture-begin, the sample is negative and bucket 0 is incremented; if it is
  later by less than a millisecond, the sample is 0 and bucket 1 is incremented.
\<close>

theorem capture_latency_sample:
  fixes n :: nat and media :: EventMediaType and created :: TimeTicks
    and inputs :: "Input list" and e :: FrameEvent and info :: FrameInfo
    and bounds :: "(TimeDelta \<times> TimeDelta) option"
  defines "s \<equiv> run n (StatsEventSubscriber_ctor media created) inputs"
  defines "s' \<equiv> OnReceiveFrameEvent n bounds e s"
  defines "sample \<equiv> int64_div (capture_time info - f_timestamp e) 1000"
  assumes media: "f_media_type e = media"
    and kind: "f_type e = FRAME_CAPTURE_END"
    and stored: "map_of (recent_frame_infos s) (f_rtp_timestamp e) = Some info"
    and known: "\<not> is_null (capture_time info)"
  shows "histograms s CAPTURE_LATENCY_MS_HISTO \<noteq> None
    \<and> histograms s' CAPTURE_LATENCY_MS_HISTO =
        map_option (Add sample) (histograms s CAPTURE_LATENCY_MS_HISTO)
    \<and> (stat \<noteq> CAPTURE_LATENCY_MS_HISTO \<longrightarrow> histograms s' stat = histograms s stat)
    \<and> (capture_time info \<le> f_timestamp e \<longrightarrow>
          sample = - ((f_timestamp e - capture_time info) div 1000))
    \<and> (capture_time info + 1000 \<le> f_timestamp e \<longrightarrow>
          sample < 0
          \<and> map_option (Add_index sample) (histograms s CAPTURE_LATENCY_MS_HISTO) = Some 0)
    \<and> (capture_time info < f_timestamp e \<and> f_timestamp e < capture_time info + 1000 \<longrightarrow>
          sample = 0
          \<and> map_option (Add_index sample) (histograms s CAPTURE_LATENCY_MS_HISTO) = Some 1)"
proof -
  have inv: "subscriber_inv media s"
    unfolding s_def by (rule inv_reachable)
  then have m: "f_media_type e = event_media_type s" and hs: "histograms_ok (histograms s)"
    using media by (simp_all add: subscriber_inv_def)
  obtain h where h: "histograms s CAPTURE_LATENCY_MS_HISTO = Some h"
    using histograms_ok_defined [OF hs, of CAPTURE_LATENCY_MS_HISTO] by auto
  have shape: "h_min h = 0" "h_max h = 800" "h_width h = 20" "length (buckets h) = 42"
    using histograms_ok_shape [OF hs h] by simp_all
  note ce = OnReceiveFrameEvent_capture_end [OF m kind stored known, of n bounds, folded s'_def]
  have hist: "histograms s' CAPTURE_LATENCY_MS_HISTO =
        map_option (Add sample) (histograms s CAPTURE_LATENCY_MS_HISTO)"
    and others: "stat \<noteq> CAPTURE_LATENCY_MS_HISTO \<longrightarrow> histograms s' stat = histograms s stat"
    unfolding ce sample_def by (simp_all add: histograms_Add_ms)
  have trunc: "sample = - ((f_timestamp e - capture_time info) div 1000)"
    if "capture_time info \<le> f_timestamp e"
  proof (cases "capture_time info = f_timestamp e")
    case True
    then show ?thesis by (simp add: sample_def int64_div_def)
  next
    case False
    with that have "capture_time info - f_timestamp e < 0" by simp
    then show ?thesis by (simp add: sample_def int64_div_def)
  qed
  have under: "sample < 0
          \<and> map_option (Add_index sample) (histograms s CAPTURE_LATENCY_MS_HISTO) = Some 0"
    if late: "capture_time info + 1000 \<le> f_timestamp e"
  proof -
    have "1 \<le> (f_timestamp e - capture_time info) div 1000"
      using late by (simp add: pos_imp_zdiv_pos_iff)
    then have "sample < 0"
      using trunc late by simp
    then show ?thesis
      by (simp add: h Add_index_def shape)
  qed
  have inner: "sample = 0
          \<and> map_option (Add_index sample) (histograms s CAPTURE_LATENCY_MS_HISTO) = Some 1"
    if near: "capture_time info < f_timestamp e \<and> f_timestamp e < capture_time info + 1000"
  proof -
    have "(f_timestamp e - capture_time info) div 1000 = 0"
      using near by (simp add: div_pos_pos_trivial)
    then have "sample = 0"
      using trunc near by simp
    then show ?thesis
      by (simp add: h Add_index_def shape int64_div_def)
  qed
  from h hist others trunc under inner show ?thesis by blast
qed

theorem capture_latency_sample_witness:
  "histograms
     (OnReceiveFrameEvent 100 None
        \<lparr>f_timestamp = 4000, f_type = FRAME_CAPTURE_END, f_media_type = VIDEO_EVENT,
         f_rtp_timestamp = 100, f_size = 0, f_delay_delta = 0\<rparr>
        (run 100 (StatsEventSubscriber_ctor VIDEO_EVENT 0)
          [Frame None \<lparr>f_timestamp = 1000, f_type = FRAME_CAPTURE_BEGIN,
                       f_media_type = VIDEO_EVENT, f_rtp_timestamp = 100, f_size = 0,
                       f_delay_delta = 0\<rparr>]))
     CAPTURE_LATENCY_MS_HISTO =
   Some (Add (- 3) \<lparr>h_min = 0, h_max = 800, h_width = 20, buckets = replicate 42 0\<rparr>)
   \<and> Add_index (- 3) \<lparr>h_min = 0, h_max = 800, h_width = 20, buckets = replicate 42 0\<rparr> = 0"
  using capture_latency_sample
    [where n = 100 and media = VIDEO_EVENT and created = 0 and bounds = None
       and inputs = "[Frame None \<lparr>f_timestamp = 1000, f_type = FRAME_CAPTURE_BEGIN,
                       f_media_type = VIDEO_EVENT, f_rtp_timestamp = 100, f_size = 0,
                       f_delay_delta = 0\<rparr>]"
       and e = "\<lparr>f_timestamp = 4000, f_type = FRAME_CAPTURE_END, f_media_type = VIDEO_EVENT,
                  f_rtp_timestamp = 100, f_size = 0, f_delay_delta = 0\<rparr>"
       and info = "FrameInfo_ctor\<lparr>capture_time := 1000\<rparr>"
       and stat = ENCODE_LATENCY_MS_HISTO]
  by (simp add: run_def OnReceiveFrameEvent_capture_begin recent_MaybeInsertFrameInfo
        StatsEventSubscriber_ctor_def FrameInfo_ctor_def is_null_def int64_div_def
        InitHistograms_def InitHistograms_value)

end
